theory Spec2Isabelle
  imports Complex_Main "HOL-Library.Monad_Syntax"
begin

section \<open>Robust statistics (src/lib/statistics.ts)\<close>

text \<open>
  JavaScript numbers are modelled as exact reals. \<open>[...values].sort((a, b) => a - b)\<close>
  is the ascending stable sort, \<^const>\<open>sort\<close>. Every index read below is in range
  under the guard that precedes it in the source.
\<close>

definition median :: "real list \<Rightarrow> real" where
  "median values =
     (if length values = 0 then 0
      else let sorted = sort values; n = length sorted in
        if n mod 2 = 1 then sorted ! (n div 2)
        else (sorted ! (n div 2 - 1) + sorted ! (n div 2)) / 2)"

record quartiles =
  q1 :: real
  q3 :: real
  iqr :: real

definition iqr_stats :: "real list \<Rightarrow> quartiles" where
  "iqr_stats values =
     (if length values < 4 then \<lparr>q1 = 0, q3 = 0, iqr = 0\<rparr>
      else let sorted = sort values; n = length sorted;
               lowerHalf = take (n div 2) sorted;
               upperHalf = drop ((n + 1) div 2) sorted;
               a = median lowerHalf;
               b = median upperHalf
           in \<lparr>q1 = a, q3 = b, iqr = b - a\<rparr>)"

definition mad :: "real list \<Rightarrow> real" where
  "mad values =
     (if length values = 0 then 0
      else let med = median values;
               deviations = map (\<lambda>v. \<bar>v - med\<bar>) values
           in 14826 / 10000 * median deviations)"

subsection \<open>Guards on computed values: the routines over the host's arithmetic\<close>

text \<open>
  Whether a guard such as \<open>madS === 0\<close> or \<open>std === 0\<close> fires depends on the value
  that the host's arithmetic computes: on its rounding, its infinities and its NaN.
  For these guards the routines are embedded over an arbitrary arithmetic, a record of
  the operations on numbers that the code uses, with no assumption about them. The
  binary64 arithmetic of an ECMAScript host is one such record and exact arithmetic on
  the reals is another, so that what is proved for every record holds of both.

  \<open>lit\<close> is a numeric literal, or an array length read as a number; \<open>fpow\<close> is the
  operator \<open>**\<close> with a literal exponent; \<open>feq\<close> is \<open>===\<close> and \<open>fpos v\<close> is \<open>v > 0\<close>.
\<close>

record 'n arith =
  lit :: "real \<Rightarrow> 'n"
  fadd :: "'n \<Rightarrow> 'n \<Rightarrow> 'n"
  fsub :: "'n \<Rightarrow> 'n \<Rightarrow> 'n"
  fmul :: "'n \<Rightarrow> 'n \<Rightarrow> 'n"
  fdiv :: "'n \<Rightarrow> 'n \<Rightarrow> 'n"
  fabs :: "'n \<Rightarrow> 'n"
  fsqrt :: "'n \<Rightarrow> 'n"
  fpow :: "'n \<Rightarrow> nat \<Rightarrow> 'n"
  feq :: "'n \<Rightarrow> 'n \<Rightarrow> bool"
  fpos :: "'n \<Rightarrow> bool"

text \<open>
  \<open>[...values].sort((a, b) => a - b)\<close>. The sort of the host is stable and moves \<open>a\<close>
  behind \<open>b\<close> when the comparator is positive; for a consistent comparator every
  stable sort returns the list that the insertion below returns. (On an array that
  holds NaN the comparator is not consistent and the order is the host's own; the
  results below use of the sorted array only that it is a rearrangement of the sample.)
\<close>

fun insertNum :: "'n arith \<Rightarrow> 'n \<Rightarrow> 'n list \<Rightarrow> 'n list" where
  "insertNum A a [] = [a]"
| "insertNum A a (b # bs) =
     (if fpos A (fsub A a b) then b # insertNum A a bs else a # b # bs)"

definition sortNum :: "'n arith \<Rightarrow> 'n list \<Rightarrow> 'n list" where
  "sortNum A values = foldr (insertNum A) values []"

definition medianA :: "'n arith \<Rightarrow> 'n list \<Rightarrow> 'n" where
  "medianA A values =
     (if length values = 0 then lit A 0
      else let sorted = sortNum A values; n = length sorted in
        if n mod 2 = 1 then sorted ! (n div 2)
        else fdiv A (fadd A (sorted ! (n div 2 - 1)) (sorted ! (n div 2))) (lit A 2))"

definition madA :: "'n arith \<Rightarrow> 'n list \<Rightarrow> 'n" where
  "madA A values =
     (if length values = 0 then lit A 0
      else let med = medianA A values;
               deviations = map (\<lambda>v. fabs A (fsub A v med)) values
           in fmul A (lit A (14826 / 10000)) (medianA A deviations))"






text \<open>
  Exact arithmetic on the reals. On an input for which every intermediate result is a
  small integer or the half of one, binary64 computes without rounding, and this record
  computes what the host computes.
\<close>

definition exact :: "real arith" where
  "exact = \<lparr>lit = (\<lambda>x. x), fadd = (+), fsub = (-), fmul = (*), fdiv = (/), fabs = abs,
            fsqrt = sqrt, fpow = (\<lambda>x k. x ^ k), feq = (=), fpos = (\<lambda>x. 0 < x)\<rparr>"



subsection \<open>The other routines, over exact arithmetic\<close>

text \<open>
  The routines of this subsection are embedded over exact real arithmetic. A result
  that is not a finite number there (a division by zero, the square root of a negative
  number, the literal \<open>NaN\<close>) is \<open>None\<close>, and a routine that contains such an
  operation returns an \<open>option\<close>. The rounding and the overflow of binary64 are not
  represented. These embeddings are used below for what does not depend on either: the
  literal that the guard at the head of a routine returns, and the result of
  \<open>mannWhitneyU\<close>, whose arithmetic is on ranks (multiples of one half, bounded by the
  length of the arrays) and group sizes and never on the sample values.
\<close>

definition js_div :: "real \<Rightarrow> real \<Rightarrow> real option" where
  "js_div a b = (if b = 0 then None else Some (a / b))"

definition js_sqrt :: "real \<Rightarrow> real option" where
  "js_sqrt a = (if a < 0 then None else Some (sqrt a))"


subsection \<open>Empirical CDF\<close>




subsection \<open>Normal CDF\<close>



subsection \<open>Ranks with ties\<close>










subsection \<open>Correlation\<close>





subsection \<open>Trend detection\<close>














subsection \<open>Distribution analysis\<close>





subsection \<open>Utility\<close>

definition clamp :: "real \<Rightarrow> real \<Rightarrow> real \<Rightarrow> real" where
  "clamp v lo hi = max lo (min hi v)"



section \<open>Scoring engine (scoringEngine.ts)\<close>

text \<open>
  An optional field of a TypeScript interface is an \<open>option\<close>; \<open>number | null\<close> is
  \<open>real option\<close>; a \<open>Map<string, T>\<close> and a \<open>Record<string, number>\<close> are partial maps.
\<close>

record LayerMetrics =
  lm_sessionId :: string
  lm_layer :: nat
  meanRT :: "real option"
  rtVariance :: "real option"
  rtStd :: "real option"
  anticipationCount :: "real option"
  lapseCount :: "real option"
  meanTrackingError :: "real option"
  trackingErrorVariance :: "real option"
  meanJerk :: "real option"
  overshootRate :: "real option"
  meanAudioRT :: "real option"
  audioAccuracy :: "real option"
  audioFalsePositives :: "real option"
  meanPRPDuration :: "real option"
  meanCooldownDelay :: "real option"
  cooldownMissCount :: "real option"
  meanPeripheralRT :: "real option"
  peripheralMissRate :: "real option"

record BaselineStats =
  bs_median :: real
  madScaled :: real
  bs_q1 :: real
  bs_q3 :: real
  bs_iqr :: real
  minVal :: real
  maxVal :: real
  windowSize :: nat

record Weights =
  alpha :: real
  L0 :: "string \<rightharpoonup> real"
  L1 :: "string \<rightharpoonup> real"
  L2 :: "string \<rightharpoonup> real"
  L3 :: "string \<rightharpoonup> real"

record WeightProfile =
  wp_id :: string
  wp_name :: string
  isCustom :: bool
  weights :: Weights

record MetricValue =
  mv_name :: string
  mv_value :: real
  mv_weight :: real
  higherIsBetter :: bool

definition DEFAULT_WINDOW_SIZE :: nat where "DEFAULT_WINDOW_SIZE = 20"
definition CALIBRATION_SESSIONS :: nat where "CALIBRATION_SESSIONS = 5"
definition MIN_BASELINE_SESSIONS :: nat where "MIN_BASELINE_SESSIONS = 10"
definition DEFAULT_ALPHA :: real where "DEFAULT_ALPHA = 35 / 100"
definition DC_VALIDITY_THRESHOLD :: real where "DC_VALIDITY_THRESHOLD = 15"

definition estimatePercentileFromStats :: "real \<Rightarrow> BaselineStats \<Rightarrow> bool \<Rightarrow> real" where
  "estimatePercentileFromStats v baseline hib =
     (let med = bs_median baseline; a = bs_q1 baseline; b = bs_q3 baseline;
          lo = minVal baseline; hi = maxVal baseline in
      if v \<le> lo then (if hib then 0 else 1)
      else if v \<ge> hi then (if hib then 1 else 0)
      else let percentile =
                 (if v \<le> a then (if a = lo then 125 / 1000 else 25 / 100 * (v - lo) / (a - lo))
                  else if v \<le> med then
                    (if med = a then 375 / 1000 else 25 / 100 + 25 / 100 * (v - a) / (med - a))
                  else if v \<le> b then
                    (if b = med then 625 / 1000 else 5 / 10 + 25 / 100 * (v - med) / (b - med))
                  else (if hi = b then 875 / 1000 else 75 / 100 + 25 / 100 * (v - b) / (hi - b)))
           in if hib then percentile else 1 - percentile)"

definition linearNormalization :: "real \<Rightarrow> real \<Rightarrow> real \<Rightarrow> bool \<Rightarrow> real" where
  "linearNormalization v lo hi hib =
     (if hi = lo then 5 / 10
      else let normalized = (v - lo) / (hi - lo);
               score = (if hib then normalized else 1 - normalized)
           in max 0 (min 1 score))"

text \<open>
  The table \<open>layerMetricDefs\<close>: per layer, the metric's name, the field of the layer
  metrics it reads and its direction. A layer outside 0..3 has no entry.
\<close>

definition layerMetricDefs ::
  "nat \<Rightarrow> (string \<times> (LayerMetrics \<Rightarrow> real option) \<times> bool) list option" where
  "layerMetricDefs l =
     (if l = 0 then Some
        [(''rt'', meanRT, False),
         (''rt_variance'', rtVariance, False)]
      else if l = 1 then Some
        [(''track_error'', meanTrackingError, False),
         (''track_variance'', trackingErrorVariance, False),
         (''jerk'', meanJerk, False),
         (''overshoot'', overshootRate, False)]
      else if l = 2 then Some
        [(''track_error'', meanTrackingError, False),
         (''audio_rt'', meanAudioRT, False),
         (''audio_accuracy'', audioAccuracy, True),
         (''prp'', meanPRPDuration, False)]
      else if l = 3 then Some
        [(''track_error'', meanTrackingError, False),
         (''audio_rt'', meanAudioRT, False),
         (''prp'', meanPRPDuration, False),
         (''cooldown'', meanCooldownDelay, False),
         (''periph_rt'', meanPeripheralRT, False),
         (''periph_miss'', peripheralMissRate, False)]
      else None)"

text \<open>\<open>profile.weights[`L${layer}`]\<close>, read only for the layers 0..3 of the table.\<close>

definition layerWeightsOf :: "Weights \<Rightarrow> nat \<Rightarrow> (string \<rightharpoonup> real)" where
  "layerWeightsOf w l = (if l = 0 then L0 w else if l = 1 then L1 w else if l = 2 then L2 w else L3 w)"

definition extractMetricsForLayer :: "nat \<Rightarrow> LayerMetrics \<Rightarrow> WeightProfile \<Rightarrow> MetricValue list" where
  "extractMetricsForLayer l metrics profile =
     (case layerMetricDefs l of
        None \<Rightarrow> []
      | Some defs \<Rightarrow>
          let layerWeights = layerWeightsOf (weights profile) l in
          concat (map (\<lambda>(nm, key, hib).
                    case key metrics of
                      None \<Rightarrow> []
                    | Some v \<Rightarrow>
                        [\<lparr>mv_name = nm, mv_value = v,
                          mv_weight = (case layerWeights nm of None \<Rightarrow> 0 | Some w \<Rightarrow> w),
                          higherIsBetter = hib\<rparr>]) defs))"

text \<open>The decimal digits of a number, for the template literal \<open>`${metric.name}_L${layer}`\<close>.\<close>

fun digits_of :: "nat \<Rightarrow> string" where
  "digits_of n =
     (if n < 10 then [''0123456789'' ! n]
      else digits_of (n div 10) @ [''0123456789'' ! (n mod 10)])"

definition baselineKey :: "string \<Rightarrow> nat \<Rightarrow> string" where
  "baselineKey nm l = nm @ ''_L'' @ digits_of l"

definition metricScore :: "nat \<Rightarrow> (string \<rightharpoonup> BaselineStats) \<Rightarrow> MetricValue \<Rightarrow> real" where
  "metricScore l baselines metric =
     (case baselines (baselineKey (mv_name metric) l) of
        None \<Rightarrow>
          linearNormalization (mv_value metric) (mv_value metric) (mv_value metric)
            (higherIsBetter metric)
      | Some baseline \<Rightarrow>
          if windowSize baseline < MIN_BASELINE_SESSIONS
          then linearNormalization (mv_value metric) (minVal baseline) (maxVal baseline)
                 (higherIsBetter metric)
          else estimatePercentileFromStats (mv_value metric) baseline (higherIsBetter metric))"

definition computeLPI ::
  "nat \<Rightarrow> LayerMetrics \<Rightarrow> (string \<rightharpoonup> BaselineStats) \<Rightarrow> WeightProfile \<Rightarrow> real option" where
  "computeLPI l metrics baselines weightProfile =
     (let metricValues = extractMetricsForLayer l metrics weightProfile in
      if length metricValues = 0 then None
      else let scores = map (metricScore l baselines) metricValues;
               appliedWeights = map mv_weight metricValues;
               weightSum = foldl (+) 0 appliedWeights
           in if weightSum = 0 then None
              else let normalizedWeights = map (\<lambda>w. w / weightSum) appliedWeights;
                       lpi = foldl (\<lambda>s (score, nw). s + score * nw) 0
                               (zip scores normalizedWeights) * 100
                   in Some (max 0 (min 100 lpi)))"

definition computeDC :: "real option \<Rightarrow> real option \<Rightarrow> real option" where
  "computeDC lpi0 lpi3 =
     (case lpi0 of
        None \<Rightarrow> None
      | Some l0 \<Rightarrow>
          (case lpi3 of
             None \<Rightarrow> None
           | Some l3 \<Rightarrow>
               if l0 < DC_VALIDITY_THRESHOLD then None
               else Some (max 0 (min 1 (l3 / l0)))))"

text \<open>The parameter \<open>alpha\<close> has the default \<open>DEFAULT_ALPHA\<close> when it is not passed.\<close>

definition computeCRS :: "real option list \<Rightarrow> real option \<Rightarrow> real option \<Rightarrow> real option" where
  "computeCRS lpis dc alphaArg =
     (let a = (case alphaArg of None \<Rightarrow> DEFAULT_ALPHA | Some x \<Rightarrow> x);
          validLPIs = concat (map (\<lambda>l. case l of None \<Rightarrow> [] | Some v \<Rightarrow> [v]) lpis) in
      if length validLPIs = 0 then None
      else let meanLPI = foldl (+) 0 validLPIs / real (length validLPIs);
               normLPI = meanLPI / 100
           in case dc of
                None \<Rightarrow> Some meanLPI
              | Some d \<Rightarrow> Some (max 0 (min 100 (100 * (a * normLPI + (1 - a) * d)))))"

text \<open>The non-null entries of an LPI array, as \<open>lpis.filter(lpi => lpi !== null)\<close> selects them.\<close>

definition validLPIs_of :: "real option list \<Rightarrow> real list" where
  "validLPIs_of lpis = concat (map (\<lambda>l. case l of None \<Rightarrow> [] | Some v \<Rightarrow> [v]) lpis)"

datatype alert = Critical | Warning

definition computeModifiedZScore :: "real \<Rightarrow> BaselineStats \<Rightarrow> real" where
  "computeModifiedZScore v baseline =
     (if madScaled baseline = 0 then 0 else (v - bs_median baseline) / madScaled baseline)"

definition checkAlertThreshold :: "real \<Rightarrow> alert option" where
  "checkAlertThreshold zScore =
     (if zScore < - 2 then Some Critical
      else if zScore < - (15 / 10) then Some Warning
      else None)"

record SessionScores =
  lpi0 :: "real option"
  lpi1 :: "real option"
  lpi2 :: "real option"
  lpi3 :: "real option"
  dc :: "real option"
  crs :: "real option"
  alert :: "alert option"

text \<open>\<open>layerMetrics[i] ? computeLPI(i, layerMetrics[i], ...) : null\<close>: a read past the end
  of the array is \<open>undefined\<close>, hence null.\<close>

definition lpiAt ::
  "nat \<Rightarrow> LayerMetrics list \<Rightarrow> (string \<rightharpoonup> BaselineStats) \<Rightarrow> WeightProfile \<Rightarrow> real option" where
  "lpiAt i layerMetrics baselines weightProfile =
     (if i < length layerMetrics then computeLPI i (layerMetrics ! i) baselines weightProfile
      else None)"

definition computeSessionScores ::
  "LayerMetrics list \<Rightarrow> (string \<rightharpoonup> BaselineStats) \<Rightarrow> WeightProfile \<Rightarrow> SessionScores" where
  "computeSessionScores layerMetrics baselines weightProfile =
     (let l0 = lpiAt 0 layerMetrics baselines weightProfile;
          l1 = lpiAt 1 layerMetrics baselines weightProfile;
          l2 = lpiAt 2 layerMetrics baselines weightProfile;
          l3 = lpiAt 3 layerMetrics baselines weightProfile;
          d = computeDC l0 l3;
          c = computeCRS [l0, l1, l2, l3] d (Some (alpha (weights weightProfile)));
          al = (case c of
                  None \<Rightarrow> None
                | Some cv \<Rightarrow>
                    (case baselines ''crs'' of
                       None \<Rightarrow> None
                     | Some crsBaseline \<Rightarrow>
                         if windowSize crsBaseline \<ge> MIN_BASELINE_SESSIONS
                         then checkAlertThreshold (computeModifiedZScore cv crsBaseline)
                         else None))
      in \<lparr>lpi0 = l0, lpi1 = l1, lpi2 = l2, lpi3 = l3, dc = d, crs = c, alert = al\<rparr>)"

text \<open>The default profile \<open>balanced\<close> of the initial schema migration.\<close>

definition balancedProfile :: WeightProfile where
  "balancedProfile =
     \<lparr>wp_id = ''balanced'', wp_name = ''Balanced'', isCustom = False,
      weights =
        \<lparr>alpha = 35 / 100,
         L0 = [''rt'' \<mapsto> 6 / 10, ''rt_variance'' \<mapsto> 4 / 10],
         L1 = [''track_error'' \<mapsto> 35 / 100, ''track_variance'' \<mapsto> 25 / 100,
               ''jerk'' \<mapsto> 20 / 100, ''overshoot'' \<mapsto> 20 / 100],
         L2 = [''track_error'' \<mapsto> 25 / 100, ''audio_rt'' \<mapsto> 25 / 100,
               ''audio_accuracy'' \<mapsto> 20 / 100, ''prp'' \<mapsto> 30 / 100],
         L3 = [''track_error'' \<mapsto> 15 / 100, ''audio_rt'' \<mapsto> 15 / 100, ''prp'' \<mapsto> 20 / 100,
               ''cooldown'' \<mapsto> 15 / 100, ''periph_rt'' \<mapsto> 15 / 100,
               ''periph_miss'' \<mapsto> 20 / 100]\<rparr>\<rparr>"

text \<open>A layer-metrics record with no metric set, as \<open>computeLayerMetrics\<close> starts from.\<close>

definition emptyMetrics :: "string \<Rightarrow> nat \<Rightarrow> LayerMetrics" where
  "emptyMetrics sid l =
     \<lparr>lm_sessionId = sid, lm_layer = l, meanRT = None, rtVariance = None, rtStd = None,
      anticipationCount = None, lapseCount = None, meanTrackingError = None,
      trackingErrorVariance = None, meanJerk = None, overshootRate = None,
      meanAudioRT = None, audioAccuracy = None, audioFalsePositives = None,
      meanPRPDuration = None, meanCooldownDelay = None, cooldownMissCount = None,
      meanPeripheralRT = None, peripheralMissRate = None\<rparr>"

text \<open>Sample inputs on which the scoring functions are evaluated below.\<close>

definition sampleL0 :: LayerMetrics where
  "sampleL0 = (emptyMetrics ''s1'' 0)\<lparr>meanRT := Some 300, rtVariance := Some 900\<rparr>"

definition sampleL3 :: LayerMetrics where
  "sampleL3 = (emptyMetrics ''s1'' 3)\<lparr>meanTrackingError := Some 40\<rparr>"

definition sampleBaselines :: "string \<rightharpoonup> BaselineStats" where
  "sampleBaselines =
     [''rt_L0'' \<mapsto> \<lparr>bs_median = 320, madScaled = 30, bs_q1 = 280, bs_q3 = 360, bs_iqr = 80,
                      minVal = 200, maxVal = 500, windowSize = 12\<rparr>]"

section \<open>Test engine (testEngine.ts)\<close>

subsection \<open>Events and runtime state (types)\<close>

datatype EventType =
  stimulus_onset | click | keypress | cursor_pos | audio_cue | cooldown_ready | peripheral_flash

datatype Tone = high | low | distractor

datatype Direction = up | down | left | right

text \<open>
  The payload of an event: the optional fields that the engine writes and the metrics
  read. A field that is absent in the JavaScript object is \<open>None\<close>.
\<close>

record EventData =
  d_x :: "real option"
  d_y :: "real option"
  d_key :: "string option"
  cursorX :: "real option"
  cursorY :: "real option"
  targetX :: "real option"
  targetY :: "real option"
  d_targetRadius :: "real option"
  tone :: "Tone option"
  direction :: "Direction option"
  digit :: "nat option"

definition noData :: EventData where
  "noData = \<lparr>d_x = None, d_y = None, d_key = None, cursorX = None, cursorY = None,
             targetX = None, targetY = None, d_targetRadius = None, tone = None,
             direction = None, digit = None\<rparr>"

record RawEvent =
  ev_sessionId :: string
  ev_layer :: int
  eventType :: EventType
  timestampUs :: real
  ev_data :: EventData

datatype Phase = Countdown | Running | InterLayer | Complete | Idle

record TestState =
  ts_currentLayer :: int
  ts_layerStartTime :: real
  layerDuration :: real
  ts_isRunning :: bool
  ts_isPaused :: bool
  ts_phase :: Phase

record SimpleStimulus =
  visible :: bool
  ss_x :: real
  ss_y :: real
  ss_onsetTime :: real

record TargetState =
  t_x :: real
  t_y :: real
  t_vx :: real
  t_vy :: real
  t_radius :: real

record AudioCueState =
  cue_tone :: Tone
  cue_onsetTime :: real

record PeripheralFlash =
  pf_direction :: Direction
  pf_digit :: nat
  pf_onsetTime :: real

record StimulusState =
  simpleStimulus :: "SimpleStimulus option"
  target :: "TargetState option"
  lastAudioCue :: "AudioCueState option"
  cooldownProgress :: real
  cooldownReady :: bool
  cooldownReadyTime :: "real option"
  peripheralFlash :: "PeripheralFlash option"

datatype Preset = casual | standard | intense | custom

record DifficultyParams =
  dp_targetSpeed :: real
  audioInterval :: "real \<times> real"
  audioIntervalMin :: "real option"
  audioIntervalMax :: "real option"
  peripheralDuration :: real
  dp_cooldownInterval :: real

record Resolution =
  width :: real
  height :: real

record SessionConfig =
  mouseDPI :: real
  applicationSens :: real
  eDPI :: real
  monitorResolution :: Resolution
  monitorRefreshRate :: real
  audioDevice :: string
  audioVolume :: real
  difficulty :: Preset
  difficultyParams :: "DifficultyParams option"

text \<open>
  What the engine sends out: console warnings, the listeners' notifications (each with
  the value it is called with) and the host calls that schedule or cancel a frame.
\<close>

datatype Output =
  ConsoleWarn string
  | OnEvent RawEvent
  | OnStateUpdate TestState
  | OnStimulusUpdate StimulusState
  | OnAbort
  | RequestAnimationFrame nat
  | CancelAnimationFrame nat
  | ExitPointerLock

record Position =
  pos_x :: real
  pos_y :: real

record Velocity =
  vx :: real
  vy :: real

text \<open>
  The engine object. The host is part of the state: \<open>env_clock\<close> and \<open>env_random\<close>
  are the successive results of \<open>performance.now()\<close> and \<open>Math.random()\<close>,
  \<open>clockCalls\<close> and \<open>randomCalls\<close> count the calls made so far, and \<open>outputs\<close> is
  what has been sent out. The listeners are represented by whether they are set.
\<close>

record TestEngine =
  config :: SessionConfig
  engineDifficulty :: DifficultyParams
  sessionId :: string
  currentLayer :: int
  layerStartTime :: real
  testStartTime :: real
  isRunning :: bool
  isPaused :: bool
  phase :: Phase
  animationFrameId :: "nat option"
  stimulusState :: StimulusState
  events :: "RawEvent list"
  eventIndex :: nat
  lastFrameTime :: real
  lastAudioCueTime :: real
  lastPeripheralTime :: real
  lastCooldownReadyTime :: real
  nextSimpleStimulusTime :: real
  nextAudioCueTime :: real
  nextPeripheralTime :: real
  systemStallCount :: nat
  targetPosition :: Position
  targetVelocity :: Velocity
  targetRadius :: real
  targetSpeed :: real
  currentAngle :: real
  goalAngle :: real
  isSteeringToGoal :: bool
  cooldownInterval :: real
  cooldownStartTime :: real
  onEvent :: bool
  onStateUpdate :: bool
  onStimulusUpdate :: bool
  onAbort :: bool
  env_clock :: "nat \<Rightarrow> real"
  clockCalls :: nat
  env_random :: "nat \<Rightarrow> real"
  randomCalls :: nat
  frameRequests :: nat
  outputs :: "Output list"

subsection \<open>Constants\<close>

definition MAX_EVENTS :: nat where "MAX_EVENTS = 50000"

definition L0_STIMULUS_INTERVAL :: "real \<times> real" where "L0_STIMULUS_INTERVAL = (800, 2000)"
definition MIN_AUDIO_INTERVAL :: real where "MIN_AUDIO_INTERVAL = 1500"

definition LAYER_DURATIONS :: "int \<Rightarrow> real option" where
  "LAYER_DURATIONS l =
     (if l = 0 then Some 30000 else if l = 1 then Some 45000
      else if l = 2 then Some 45000 else if l = 3 then Some 60000 else None)"

text \<open>The warning of a full buffer; its dash is the three bytes of U+2014.\<close>

definition bufferFullMessage :: string where
  "bufferFullMessage =
     ''Event buffer full '' @ [CHR 0xE2, CHR 0x80, CHR 0x94] @ '' some events may be lost''"

subsection \<open>Host calls\<close>

definition performance_now :: "TestEngine \<Rightarrow> real \<times> TestEngine" where
  "performance_now s = (env_clock s (clockCalls s), s\<lparr>clockCalls := clockCalls s + 1\<rparr>)"

definition Math_random :: "TestEngine \<Rightarrow> real \<times> TestEngine" where
  "Math_random s = (env_random s (randomCalls s), s\<lparr>randomCalls := randomCalls s + 1\<rparr>)"

definition requestAnimationFrame :: "TestEngine \<Rightarrow> TestEngine" where
  "requestAnimationFrame s =
     s\<lparr>animationFrameId := Some (frameRequests s),
       frameRequests := frameRequests s + 1,
       outputs := outputs s @ [RequestAnimationFrame (frameRequests s)]\<rparr>"

definition emit :: "Output \<Rightarrow> TestEngine \<Rightarrow> TestEngine" where
  "emit out s = s\<lparr>outputs := outputs s @ [out]\<rparr>"

subsection \<open>Construction\<close>

definition loadDifficultyParams :: "Preset \<Rightarrow> DifficultyParams option \<Rightarrow> DifficultyParams" where
  "loadDifficultyParams preset cust =
     (let casualP = \<lparr>dp_targetSpeed = 150, audioInterval = (2000, 4000), audioIntervalMin = None,
                      audioIntervalMax = None, peripheralDuration = 2200,
                      dp_cooldownInterval = 10000\<rparr>;
          standardP = \<lparr>dp_targetSpeed = 200, audioInterval = (1500, 3500), audioIntervalMin = None,
                        audioIntervalMax = None, peripheralDuration = 1800,
                        dp_cooldownInterval = 8000\<rparr>;
          intenseP = \<lparr>dp_targetSpeed = 280, audioInterval = (1500, 2500), audioIntervalMin = None,
                       audioIntervalMax = None, peripheralDuration = 800,
                       dp_cooldownInterval = 6000\<rparr>
      in case (preset, cust) of
           (custom, Some c) \<Rightarrow> c
         | (casual, _) \<Rightarrow> casualP
         | (standard, _) \<Rightarrow> standardP
         | (intense, _) \<Rightarrow> intenseP
         | (custom, None) \<Rightarrow> standardP)"

definition blankEvent :: "string \<Rightarrow> RawEvent" where
  "blankEvent sid =
     \<lparr>ev_sessionId = sid, ev_layer = 0, eventType = cursor_pos, timestampUs = 0,
      ev_data = noData\<rparr>"

definition initialStimulusState :: StimulusState where
  "initialStimulusState =
     \<lparr>simpleStimulus = None, target = None, lastAudioCue = None, cooldownProgress = 0,
      cooldownReady = False, cooldownReadyTime = None, peripheralFlash = None\<rparr>"

text \<open>The constructor, with the field initialisers of the class; no listener is set.\<close>

definition newTestEngine ::
  "string \<Rightarrow> SessionConfig \<Rightarrow> (nat \<Rightarrow> real) \<Rightarrow> (nat \<Rightarrow> real) \<Rightarrow> TestEngine" where
  "newTestEngine sid cfg clock rnd =
     \<lparr>config = cfg,
      engineDifficulty = loadDifficultyParams (difficulty cfg) (difficultyParams cfg),
      sessionId = sid,
      currentLayer = - 1, layerStartTime = 0, testStartTime = 0,
      isRunning = False, isPaused = False, phase = Idle, animationFrameId = None,
      stimulusState = initialStimulusState,
      events = replicate MAX_EVENTS (blankEvent sid), eventIndex = 0,
      lastFrameTime = 0, lastAudioCueTime = 0, lastPeripheralTime = 0,
      lastCooldownReadyTime = 0, nextSimpleStimulusTime = 0, nextAudioCueTime = 0,
      nextPeripheralTime = 0, systemStallCount = 0,
      targetPosition = \<lparr>pos_x = 0, pos_y = 0\<rparr>, targetVelocity = \<lparr>vx = 0, vy = 0\<rparr>,
      targetRadius = 30, targetSpeed = 200,
      currentAngle = 0, goalAngle = 0, isSteeringToGoal = False,
      cooldownInterval = 8000, cooldownStartTime = 0,
      onEvent = False, onStateUpdate = False, onStimulusUpdate = False, onAbort = False,
      env_clock = clock, clockCalls = 0, env_random = rnd, randomCalls = 0,
      frameRequests = 0, outputs = []\<rparr>"

subsection \<open>Event recording\<close>

text \<open>
  The argument of \<open>recordEvent\<close> is an event without its session id. The slot at the
  cursor is one of the pre-allocated objects; every field of it is overwritten.
\<close>

record EventInput =
  in_layer :: int
  in_eventType :: EventType
  in_timestampUs :: real
  in_data :: EventData

definition recordEvent :: "EventInput \<Rightarrow> TestEngine \<Rightarrow> TestEngine" where
  "recordEvent eventData s =
     (if eventIndex s \<ge> MAX_EVENTS then emit (ConsoleWarn bufferFullMessage) s
      else let event = (events s ! eventIndex s)
                 \<lparr>ev_sessionId := sessionId s,
                  ev_layer := in_layer eventData,
                  eventType := in_eventType eventData,
                  timestampUs := in_timestampUs eventData,
                  ev_data := in_data eventData\<rparr>;
               s1 = s\<lparr>events := (events s)[eventIndex s := event],
                      eventIndex := eventIndex s + 1\<rparr>
           in if onEvent s1 then emit (OnEvent event) s1 else s1)"

definition getEvents :: "TestEngine \<Rightarrow> RawEvent list" where
  "getEvents s = take (eventIndex s) (events s)"

definition getState :: "TestEngine \<Rightarrow> TestState" where
  "getState s =
     \<lparr>ts_currentLayer = currentLayer s,
      ts_layerStartTime = layerStartTime s,
      layerDuration = (case LAYER_DURATIONS (currentLayer s) of None \<Rightarrow> 0 | Some d \<Rightarrow> d),
      ts_isRunning = isRunning s,
      ts_isPaused = isPaused s,
      ts_phase = phase s\<rparr>"

definition emitStateUpdate :: "TestEngine \<Rightarrow> TestEngine" where
  "emitStateUpdate s = (if onStateUpdate s then emit (OnStateUpdate (getState s)) s else s)"

definition emitStimulusUpdate :: "TestEngine \<Rightarrow> TestEngine" where
  "emitStimulusUpdate s =
     (if onStimulusUpdate s then emit (OnStimulusUpdate (stimulusState s)) s else s)"

definition randomInterval :: "real \<Rightarrow> real \<Rightarrow> TestEngine \<Rightarrow> real \<times> TestEngine" where
  "randomInterval lo hi s = (let (r, s1) = Math_random s in (lo + r * (hi - lo), s1))"

subsection \<open>Layer lifecycle\<close>

definition initializeTarget :: "TestEngine \<Rightarrow> TestEngine" where
  "initializeTarget s =
     (let centerX = width (monitorResolution (config s)) / 2;
          centerY = height (monitorResolution (config s)) / 2;
          s1 = s\<lparr>targetPosition := \<lparr>pos_x = centerX, pos_y = centerY\<rparr>\<rparr>;
          (r, s2) = Math_random s1;
          angle = r * 2 * pi
      in s2\<lparr>currentAngle := angle, goalAngle := angle, isSteeringToGoal := False,
            targetVelocity := \<lparr>vx = cos angle * targetSpeed s2, vy = sin angle * targetSpeed s2\<rparr>\<rparr>)"

definition resetLayerState :: "int \<Rightarrow> TestEngine \<Rightarrow> TestEngine" where
  "resetLayerState l s =
     (let s1 = (if l = 0
                then let (d, t) = randomInterval (fst L0_STIMULUS_INTERVAL)
                                    (snd L0_STIMULUS_INTERVAL) s
                     in t\<lparr>nextSimpleStimulusTime := layerStartTime t + d\<rparr>
                else s);
          s2 = (if l \<ge> 1
                then let t = (if l = 1 then initializeTarget s1 else s1)
                     in t\<lparr>targetSpeed := dp_targetSpeed (engineDifficulty t)\<rparr>
                else s1);
          s3 = (if l \<ge> 2
                then let t = s2\<lparr>lastAudioCueTime := layerStartTime s2\<rparr>;
                         (minI, maxI) = audioInterval (engineDifficulty t);
                         (d, u) = randomInterval (max minI MIN_AUDIO_INTERVAL) maxI t
                     in u\<lparr>nextAudioCueTime := layerStartTime u + d\<rparr>
                else s2);
          s4 = (if l = 3
                then let t = s3\<lparr>cooldownStartTime := layerStartTime s3,
                               cooldownInterval := dp_cooldownInterval (engineDifficulty s3),
                               lastPeripheralTime := layerStartTime s3,
                               lastCooldownReadyTime := layerStartTime s3\<rparr>;
                         (d, u) = randomInterval 3000 6000 t
                     in u\<lparr>nextPeripheralTime := layerStartTime u + d\<rparr>
                else s3);
          s5 = s4\<lparr>stimulusState :=
                 \<lparr>simpleStimulus = None,
                  target = (if l \<ge> 1
                            then Some \<lparr>t_x = pos_x (targetPosition s4),
                                       t_y = pos_y (targetPosition s4),
                                       t_vx = vx (targetVelocity s4),
                                       t_vy = vy (targetVelocity s4),
                                       t_radius = targetRadius s4\<rparr>
                            else None),
                  lastAudioCue = None, cooldownProgress = 0, cooldownReady = False,
                  cooldownReadyTime = None, peripheralFlash = None\<rparr>\<rparr>
      in emitStimulusUpdate s5)"

definition startLayer :: "int \<Rightarrow> TestEngine \<Rightarrow> TestEngine" where
  "startLayer l s =
     (let s1 = s\<lparr>currentLayer := l\<rparr>;
          (t, s2) = performance_now s1;
          s3 = s2\<lparr>layerStartTime := t\<rparr>;
          s4 = s3\<lparr>lastFrameTime := layerStartTime s3, phase := Running\<rparr>;
          s5 = resetLayerState l s4;
          s6 = emitStateUpdate s5
      in requestAnimationFrame s6)"

definition start :: "TestEngine \<Rightarrow> TestEngine" where
  "start s =
     (if isRunning s then s
      else let s1 = s\<lparr>isRunning := True\<rparr>;
               (t, s2) = performance_now s1;
               s3 = s2\<lparr>testStartTime := t, eventIndex := 0, systemStallCount := 0\<rparr>
           in startLayer 0 s3)"

definition stop :: "TestEngine \<Rightarrow> TestEngine" where
  "stop s =
     (let wasRunning = isRunning s;
          s1 = s\<lparr>isRunning := False, isPaused := False, phase := Idle\<rparr>;
          s2 = (case animationFrameId s1 of
                  None \<Rightarrow> s1
                | Some h \<Rightarrow> (emit (CancelAnimationFrame h) s1)\<lparr>animationFrameId := None\<rparr>);
          s3 = emit ExitPointerLock s2;
          s4 = emitStateUpdate s3
      in if wasRunning \<and> onAbort s4 then emit OnAbort s4 else s4)"

subsection \<open>Target movement\<close>






text \<open>\<open>Math.atan2(y, x)\<close> on reals (there is no negative zero).\<close>

definition atan2 :: "real \<Rightarrow> real \<Rightarrow> real" where
  "atan2 y x =
     (if x > 0 then arctan (y / x)
      else if x < 0 \<and> y \<ge> 0 then arctan (y / x) + pi
      else if x < 0 \<and> y < 0 then arctan (y / x) - pi
      else if y > 0 then pi / 2
      else if y < 0 then - (pi / 2)
      else 0)"




definition bounceY :: "TestEngine \<Rightarrow> TestEngine" where
  "bounceY s =
     (let h = height (monitorResolution (config s)); margin = targetRadius s in
      if pos_y (targetPosition s) \<le> margin \<or> pos_y (targetPosition s) \<ge> h - margin
      then let s1 = s\<lparr>targetVelocity := (targetVelocity s)\<lparr>vy := vy (targetVelocity s) * - 1\<rparr>\<rparr>;
               s2 = s1\<lparr>currentAngle := atan2 (vy (targetVelocity s1)) (vx (targetVelocity s1)),
                       isSteeringToGoal := False\<rparr>
           in s2\<lparr>targetPosition := (targetPosition s2)
                    \<lparr>pos_y := max margin (min (h - margin) (pos_y (targetPosition s2)))\<rparr>\<rparr>
      else s)"






text \<open>The phases that the state listener is notified of, in order.\<close>

fun phasesReported :: "Output list \<Rightarrow> Phase list" where
  "phasesReported [] = []"
| "phasesReported (OnStateUpdate st # outs) = ts_phase st # phasesReported outs"
| "phasesReported (out # outs) = phasesReported outs"

text \<open>A sample host: a full-HD display at 60 Hz, a clock that advances by 16 ms per reading
  from 1000 ms, and a random source stuck at one half.\<close>

definition sampleConfig :: SessionConfig where
  "sampleConfig =
     \<lparr>mouseDPI = 800, applicationSens = 1, eDPI = 800,
      monitorResolution = \<lparr>width = 1920, height = 1080\<rparr>, monitorRefreshRate = 60,
      audioDevice = ''default'', audioVolume = 1, difficulty = standard,
      difficultyParams = None\<rparr>"

definition sampleEngine :: TestEngine where
  "sampleEngine =
     (newTestEngine ''s1'' sampleConfig (\<lambda>n. 1000 + 16 * real n) (\<lambda>n. 1 / 2))
       \<lparr>onEvent := True, onStateUpdate := True, onStimulusUpdate := True, onAbort := True\<rparr>"

definition sampleInput :: EventInput where
  "sampleInput =
     \<lparr>in_layer = 0, in_eventType = click, in_timestampUs = 1250000,
      in_data = noData\<lparr>d_x := Some 10, d_y := Some 20\<rparr>\<rparr>"

section \<open>Metrics calculator (metricsCalculator.ts)\<close>

definition RT_MIN_MS :: real where "RT_MIN_MS = 100"
definition RT_MAX_MS :: real where "RT_MAX_MS = 1500"

text \<open>\<open>.sort((a, b) => a.timestampUs - b.timestampUs)\<close>: ascending by timestamp, stable.\<close>

definition sortByTime :: "RawEvent list \<Rightarrow> RawEvent list" where
  "sortByTime es = sort_key timestampUs es"

subsection \<open>Layer 0: simple reaction time\<close>

record ReactionTimeResult =
  r_meanRT :: real
  r_rtVariance :: real
  r_rtStd :: real
  r_anticipationCount :: nat
  r_lapseCount :: nat

definition rtStimuli :: "RawEvent list \<Rightarrow> RawEvent list" where
  "rtStimuli es = sortByTime (filter (\<lambda>e. eventType e = stimulus_onset) es)"

definition rtResponses :: "RawEvent list \<Rightarrow> RawEvent list" where
  "rtResponses es = sortByTime (filter (\<lambda>e. eventType e = click) es)"

text \<open>
  The inner loop runs over the stimuli from the last index down to 0 and stops at the
  first one whose timestamp is before the response's.
\<close>

definition matchedStimulus :: "RawEvent list \<Rightarrow> RawEvent \<Rightarrow> RawEvent option" where
  "matchedStimulus stimuli response =
     find (\<lambda>st. timestampUs st < timestampUs response) (rev stimuli)"

text \<open>The latency \<open>rtMs\<close> of a response, when a stimulus is matched.\<close>

definition rtMs :: "RawEvent list \<Rightarrow> RawEvent \<Rightarrow> real option" where
  "rtMs stimuli response =
     (case matchedStimulus stimuli response of
        None \<Rightarrow> None
      | Some st \<Rightarrow> Some ((timestampUs response - timestampUs st) / 1000))"

text \<open>One turn of the loop over the responses, on (validRTs, anticipationCount, lapseCount).\<close>

definition rtStep :: "RawEvent list \<Rightarrow> real list \<times> nat \<times> nat \<Rightarrow> RawEvent \<Rightarrow> real list \<times> nat \<times> nat" where
  "rtStep stimuli acc response =
     (case acc of (validRTs, ac, lc) \<Rightarrow>
        (case rtMs stimuli response of
           None \<Rightarrow> (validRTs, ac, lc)
         | Some rt \<Rightarrow>
             if rt < RT_MIN_MS then (validRTs, ac + 1, lc)
             else if rt > RT_MAX_MS then (validRTs, ac, lc + 1)
             else (validRTs @ [rt], ac, lc)))"

definition reactionTime :: "RawEvent list \<Rightarrow> ReactionTimeResult" where
  "reactionTime es =
     (let stimuli = rtStimuli es;
          responses = rtResponses es;
          (validRTs, ac, lc) = foldl (rtStep stimuli) ([], 0, 0) responses
      in if length validRTs = 0
         then \<lparr>r_meanRT = 0, r_rtVariance = 0, r_rtStd = 0,
               r_anticipationCount = ac, r_lapseCount = lc\<rparr>
         else let meanRT = foldl (\<lambda>sum rt. sum + rt) 0 validRTs / real (length validRTs);
                  variance = foldl (\<lambda>sum rt. sum + (rt - meanRT)\<^sup>2) 0 validRTs
                               / real (length validRTs)
              in \<lparr>r_meanRT = meanRT, r_rtVariance = variance, r_rtStd = sqrt variance,
                  r_anticipationCount = ac, r_lapseCount = lc\<rparr>)"

text \<open>The latencies that the loop computes, one per response in timestamp order.\<close>

definition responseLatencies :: "RawEvent list \<Rightarrow> real option list" where
  "responseLatencies es = map (rtMs (rtStimuli es)) (rtResponses es)"

text \<open>The latencies of the responses that have a matched stimulus.\<close>

definition latenciesOf :: "RawEvent list \<Rightarrow> RawEvent list \<Rightarrow> real list" where
  "latenciesOf stimuli responses =
     concat (map (\<lambda>c. case rtMs stimuli c of None \<Rightarrow> [] | Some l \<Rightarrow> [l]) responses)"

subsection \<open>The reaction-time rule in the words of the specification\<close>

text \<open>
  The onset nearest before a time \<open>t\<close> is the latest stimulus onset strictly before
  \<open>t\<close>; the latency of a click is its distance to that onset, in milliseconds.
\<close>

definition onsetsBefore :: "RawEvent list \<Rightarrow> real \<Rightarrow> real list" where
  "onsetsBefore es t =
     filter (\<lambda>u. u < t) (map timestampUs (filter (\<lambda>e. eventType e = stimulus_onset) es))"

definition nearestPrecedingOnset :: "RawEvent list \<Rightarrow> real \<Rightarrow> real option" where
  "nearestPrecedingOnset es t =
     (if onsetsBefore es t = [] then None else Some (Max (set (onsetsBefore es t))))"

definition clickLatency :: "RawEvent list \<Rightarrow> RawEvent \<Rightarrow> real option" where
  "clickLatency es c =
     (case nearestPrecedingOnset es (timestampUs c) of
        None \<Rightarrow> None
      | Some u \<Rightarrow> Some ((timestampUs c - u) / 1000))"

datatype RTClass = Anticipation | Lapse | Valid

definition classifyRT :: "real \<Rightarrow> RTClass" where
  "classifyRT rt = (if rt < 100 then Anticipation else if rt > 1500 then Lapse else Valid)"

text \<open>The latencies of the clicks that have a preceding onset, in timestamp order.\<close>

definition matchedLatencies :: "RawEvent list \<Rightarrow> real list" where
  "matchedLatencies es =
     concat (map (\<lambda>c. case clickLatency es c of None \<Rightarrow> [] | Some l \<Rightarrow> [l]) (rtResponses es))"

definition validLatencies :: "RawEvent list \<Rightarrow> real list" where
  "validLatencies es = filter (\<lambda>l. classifyRT l = Valid) (matchedLatencies es)"

definition meanOf :: "real list \<Rightarrow> real" where
  "meanOf xs = sum_list xs / real (length xs)"

definition varianceOf :: "real list \<Rightarrow> real" where
  "varianceOf xs = sum_list (map (\<lambda>x. (x - meanOf xs)\<^sup>2) xs) / real (length xs)"

subsection \<open>Scenarios A and B\<close>

definition eventAt :: "EventType \<Rightarrow> real \<Rightarrow> RawEvent" where
  "eventAt ty t =
     \<lparr>ev_sessionId = ''s1'', ev_layer = 0, eventType = ty, timestampUs = t, ev_data = noData\<rparr>"

definition scenarioA :: "RawEvent list" where
  "scenarioA = [eventAt stimulus_onset 1000000, eventAt click 1250000]"

definition scenarioB :: "RawEvent list" where
  "scenarioB = [eventAt stimulus_onset 1000000, eventAt click 1000050]"

subsection \<open>Layer 2+: audio response\<close>

record AudioResult =
  a_meanAudioRT :: real
  a_audioAccuracy :: real
  a_audioFalsePositives :: nat

definition signalCues :: "RawEvent list \<Rightarrow> RawEvent list" where
  "signalCues es =
     sortByTime (filter (\<lambda>e. eventType e = audio_cue \<and> tone (ev_data e) \<noteq> Some distractor) es)"

definition distractorCues :: "RawEvent list \<Rightarrow> RawEvent list" where
  "distractorCues es =
     sortByTime (filter (\<lambda>e. eventType e = audio_cue \<and> tone (ev_data e) = Some distractor) es)"

definition spaceResponses :: "RawEvent list \<Rightarrow> RawEvent list" where
  "spaceResponses es =
     sortByTime (filter (\<lambda>e. eventType e = keypress \<and> d_key (ev_data e) = Some '' '') es)"

text \<open>
  \<open>spaceResponses.find(r => r.timestampUs > cue.timestampUs &&
  r.timestampUs < cue.timestampUs + RT_MAX_MS * 1000)\<close>
\<close>

definition inWindow :: "RawEvent \<Rightarrow> RawEvent \<Rightarrow> bool" where
  "inWindow cue r =
     (timestampUs r > timestampUs cue \<and> timestampUs r < timestampUs cue + RT_MAX_MS * 1000)"

definition findResponse :: "RawEvent list \<Rightarrow> RawEvent \<Rightarrow> RawEvent option" where
  "findResponse responses cue = find (inWindow cue) responses"

text \<open>One turn of the loop over the signal cues, on (audioRTs, hits).\<close>

definition audioStep :: "RawEvent list \<Rightarrow> real list \<times> nat \<Rightarrow> RawEvent \<Rightarrow> real list \<times> nat" where
  "audioStep responses acc cue =
     (case acc of (audioRTs, hits) \<Rightarrow>
        (case findResponse responses cue of
           None \<Rightarrow> (audioRTs, hits)
         | Some response \<Rightarrow>
             let rt = (timestampUs response - timestampUs cue) / 1000 in
             if rt \<ge> RT_MIN_MS then (audioRTs @ [rt], hits + 1) else (audioRTs, hits)))"

definition audioLoop :: "RawEvent list \<Rightarrow> real list \<times> nat" where
  "audioLoop es = foldl (audioStep (spaceResponses es)) ([], 0) (signalCues es)"

definition falsePositiveStep :: "RawEvent list \<Rightarrow> nat \<Rightarrow> RawEvent \<Rightarrow> nat" where
  "falsePositiveStep responses falsePositives distCue =
     (case findResponse responses distCue of
        None \<Rightarrow> falsePositives
      | Some falseResp \<Rightarrow> falsePositives + 1)"

definition audioMetrics :: "RawEvent list \<Rightarrow> AudioResult" where
  "audioMetrics es =
     (let (audioRTs, hits) = audioLoop es;
          falsePositives = foldl (falsePositiveStep (spaceResponses es)) 0 (distractorCues es);
          totalSignals = length (signalCues es)
      in \<lparr>a_meanAudioRT =
            (if length audioRTs > 0
             then foldl (\<lambda>s r. s + r) 0 audioRTs / real (length audioRTs) else 0),
          a_audioAccuracy = (if totalSignals > 0 then real hits / real totalSignals else 0),
          a_audioFalsePositives = falsePositives\<rparr>)"

subsection \<open>The audio rule in the words of the specification\<close>

text \<open>
  A response qualifies for a cue when it lies inside the response window and is not
  faster than the anticipation floor; a cue is matched when a qualifying response
  follows it.
\<close>

definition qualifies :: "RawEvent \<Rightarrow> RawEvent \<Rightarrow> bool" where
  "qualifies cue r = (inWindow cue r \<and> (timestampUs r - timestampUs cue) / 1000 \<ge> 100)"

definition nextQualifying :: "RawEvent list \<Rightarrow> RawEvent \<Rightarrow> RawEvent option" where
  "nextQualifying es cue = find (qualifies cue) (spaceResponses es)"

definition specMatchedCues :: "RawEvent list \<Rightarrow> RawEvent list" where
  "specMatchedCues es = filter (\<lambda>cue. nextQualifying es cue \<noteq> None) (signalCues es)"

definition specAudioAccuracy :: "RawEvent list \<Rightarrow> real" where
  "specAudioAccuracy es = real (length (specMatchedCues es)) / real (length (signalCues es))"

text \<open>What the code counts: a cue whose earliest response in the window is not too fast.\<close>

definition hasResponse :: "RawEvent list \<Rightarrow> RawEvent \<Rightarrow> bool" where
  "hasResponse es cue = list_ex (inWindow cue) (spaceResponses es)"

definition noneTooFast :: "RawEvent list \<Rightarrow> RawEvent \<Rightarrow> bool" where
  "noneTooFast es cue =
     list_all (\<lambda>r. inWindow cue r \<longrightarrow> (timestampUs r - timestampUs cue) / 1000 \<ge> 100)
       (spaceResponses es)"

definition isHit :: "RawEvent list \<Rightarrow> RawEvent \<Rightarrow> bool" where
  "isHit es cue = (hasResponse es cue \<and> noneTooFast es cue)"

definition toneEvent :: "Tone \<Rightarrow> real \<Rightarrow> RawEvent" where
  "toneEvent tn t =
     \<lparr>ev_sessionId = ''s1'', ev_layer = 2, eventType = audio_cue, timestampUs = t,
      ev_data = noData\<lparr>tone := Some tn\<rparr>\<rparr>"

definition spaceAt :: "real \<Rightarrow> RawEvent" where
  "spaceAt t =
     \<lparr>ev_sessionId = ''s1'', ev_layer = 2, eventType = keypress, timestampUs = t,
      ev_data = noData\<lparr>d_key := Some '' ''\<rparr>\<rparr>"

text \<open>A high tone at 1 s, answered by SPACE after 50 ms and again after 300 ms.\<close>

definition earlyThenLate :: "RawEvent list" where
  "earlyThenLate = [toneEvent high 1000000, spaceAt 1050000, spaceAt 1300000]"

text \<open>A high tone answered after 300 ms and a distractor answered after 50 ms.\<close>

definition signalAndDistractor :: "RawEvent list" where
  "signalAndDistractor =
     [toneEvent high 1000000, spaceAt 1300000, toneEvent distractor 4000000, spaceAt 4050000]"

section \<open>Scenario C\<close>

text \<open>
  C1 (as amended). For the sample [10,20,30,40,50] the routines return median 30 and scaled
  MAD 1.4826 * 10 = 14.826; the quartile routine splits the sorted sample into the halves
  [10,20] and [40,50], leaving the middle value out, and returns their medians:
  Q1 = 15 and Q3 = 45.
\<close>

theorem C1_scenario_C:
  "median [10, 20, 30, 40, 50] = 30
   \<and> q1 (iqr_stats [10, 20, 30, 40, 50]) = 15
   \<and> q3 (iqr_stats [10, 20, 30, 40, 50]) = 45
   \<and> mad [10, 20, 30, 40, 50] = 14826 / 10000 * 10
   \<and> mad [10, 20, 30, 40, 50] = 14826 / 1000"
  by (simp add: median_def iqr_stats_def mad_def Let_def)

text \<open>
  C1 as stated (Q1 = 20 and Q3 = 40) does not hold of the quartile routine.
\<close>

theorem C1_counterexample:
  "\<not> (q1 (iqr_stats [10, 20, 30, 40, 50]) = 20 \<and> q3 (iqr_stats [10, 20, 30, 40, 50]) = 40)"
  by (simp add: median_def iqr_stats_def Let_def)

section \<open>Quartile ordering\<close>

lemma median_sorted_bounds:
  assumes "sorted xs" "xs \<noteq> []"
  shows "xs ! 0 \<le> median xs" "median xs \<le> xs ! (length xs - 1)"
proof -
  have s: "sort xs = xs" using assms(1) by (simp add: sorted_sort_id)
  have n: "0 < length xs" using assms(2) by simp
  have mono: "\<And>i j. i \<le> j \<Longrightarrow> j < length xs \<Longrightarrow> xs ! i \<le> xs ! j"
    using assms(1) by (simp add: sorted_nth_mono)
  show "xs ! 0 \<le> median xs"
  proof (cases "length xs mod 2 = 1")
    case True
    then show ?thesis using n s mono[of 0 "length xs div 2"] by (simp add: median_def Let_def)
  next
    case False
    then have e: "length xs mod 2 = 0" by simp
    then have "2 \<le> length xs" using n by presburger
    then have a: "xs ! 0 \<le> xs ! (length xs div 2 - 1)" and b: "xs ! 0 \<le> xs ! (length xs div 2)"
      by (auto intro!: mono)
    show ?thesis using a b e n s by (simp add: median_def Let_def)
  qed
  show "median xs \<le> xs ! (length xs - 1)"
  proof (cases "length xs mod 2 = 1")
    case True
    then show ?thesis using n s mono[of "length xs div 2" "length xs - 1"]
      by (simp add: median_def Let_def)
  next
    case False
    then have e: "length xs mod 2 = 0" by simp
    then have "2 \<le> length xs" using n by presburger
    then have a: "xs ! (length xs div 2 - 1) \<le> xs ! (length xs - 1)"
         and b: "xs ! (length xs div 2) \<le> xs ! (length xs - 1)"
      by (auto intro!: mono)
    show ?thesis using a b e n s by (simp add: median_def Let_def)
  qed
qed

lemma median_mid_bounds:
  assumes "sorted xs" "2 \<le> length xs"
  shows "xs ! (length xs div 2 - 1) \<le> median xs" "median xs \<le> xs ! ((length xs + 1) div 2)"
proof -
  have s: "sort xs = xs" using assms(1) by (simp add: sorted_sort_id)
  have mono: "\<And>i j. i \<le> j \<Longrightarrow> j < length xs \<Longrightarrow> xs ! i \<le> xs ! j"
    using assms(1) by (simp add: sorted_nth_mono)
  have a: "xs ! (length xs div 2 - 1) \<le> xs ! (length xs div 2)"
    using assms(2) by (auto intro!: mono)
  show "xs ! (length xs div 2 - 1) \<le> median xs"
    using a s assms(2) by (auto simp add: median_def Let_def)
  show "median xs \<le> xs ! ((length xs + 1) div 2)"
  proof (cases "length xs mod 2 = 1")
    case True
    then have "3 \<le> length xs" using assms(2) by presburger
    then have "xs ! (length xs div 2) \<le> xs ! ((length xs + 1) div 2)"
      by (auto intro!: mono)
    then show ?thesis using True s assms(2) by (auto simp add: median_def Let_def)
  next
    case False
    then have e: "length xs mod 2 = 0" by simp
    then have "(length xs + 1) div 2 = length xs div 2" by presburger
    then show ?thesis using a e s assms(2) by (auto simp add: median_def Let_def)
  qed
qed

lemma median_sort: "median (sort values) = median values"
proof -
  have "sort (sort values) = sort values" by (simp add: sorted_sort_id)
  then show ?thesis unfolding median_def Let_def by simp
qed

lemma quartile_order:
  assumes "4 \<le> length values"
  shows "Min (set values) \<le> q1 (iqr_stats values)"
    "q1 (iqr_stats values) \<le> median values"
    "median values \<le> q3 (iqr_stats values)"
    "q3 (iqr_stats values) \<le> Max (set values)"
proof -
  define s where "s = sort values"
  define n where "n = length s"
  have n4: "4 \<le> n" using assms by (simp add: n_def s_def)
  have srt: "sorted s" by (simp add: s_def)
  have meds: "median values = median s" by (simp add: s_def median_sort)
  define lo where "lo = take (n div 2) s"
  define hi where "hi = drop ((n + 1) div 2) s"
  have q1: "q1 (iqr_stats values) = median lo" and q3: "q3 (iqr_stats values) = median hi"
    using assms by (simp_all add: iqr_stats_def Let_def lo_def hi_def n_def s_def)
  have lo_s: "sorted lo" and hi_s: "sorted hi"
    using srt by (simp_all add: lo_def hi_def sorted_wrt_take sorted_wrt_drop)
  have lo_len: "length lo = n div 2" by (simp add: lo_def n_def)
  have hi_len: "length hi = n - (n + 1) div 2" by (simp add: hi_def n_def)
  have lo_ne: "lo \<noteq> []" using lo_len n4 by auto
  have hi_ne: "hi \<noteq> []" using hi_len n4 by auto
  have lo0: "lo ! 0 = s ! 0" using n4 by (simp add: lo_def)
  have lolast: "lo ! (length lo - 1) = s ! (n div 2 - 1)" using n4 lo_len by (simp add: lo_def)
  have hi0: "hi ! 0 = s ! ((n + 1) div 2)" using n4 by (simp add: hi_def n_def)
  have hilast: "hi ! (length hi - 1) = s ! (n - 1)"
  proof -
    have "(n + 1) div 2 + (n - (n + 1) div 2 - 1) = n - 1" using n4 by presburger
    then show ?thesis using n4 hi_len by (simp add: hi_def n_def)
  qed
  have min_s: "Min (set values) \<le> s ! 0"
  proof -
    have "s ! 0 \<in> set s" using n4 by (intro nth_mem) (auto simp add: n_def)
    then have "s ! 0 \<in> set values" by (simp add: s_def)
    then show ?thesis by simp
  qed
  have max_s: "s ! (n - 1) \<le> Max (set values)"
  proof -
    have "s ! (n - 1) \<in> set s" using n4 by (intro nth_mem) (auto simp add: n_def)
    then have "s ! (n - 1) \<in> set values" by (simp add: s_def)
    then show ?thesis by simp
  qed
  show "Min (set values) \<le> q1 (iqr_stats values)"
    using median_sorted_bounds(1)[OF lo_s lo_ne] lo0 min_s q1 by simp
  show "q3 (iqr_stats values) \<le> Max (set values)"
    using median_sorted_bounds(2)[OF hi_s hi_ne] hilast max_s q3 by simp
  have n2: "2 \<le> length s" using n4 by (simp add: n_def)
  show "q1 (iqr_stats values) \<le> median values"
    using median_sorted_bounds(2)[OF lo_s lo_ne] lolast median_mid_bounds(1)[OF srt n2] q1 meds
    by (simp add: n_def)
  show "median values \<le> q3 (iqr_stats values)"
    using median_sorted_bounds(1)[OF hi_s hi_ne] hi0 median_mid_bounds(2)[OF srt n2] q3 meds
    by (simp add: n_def)
qed

text \<open>
  C2 (as amended). For every sample of at least four numbers, the quartiles returned by
  the quartile routine and the median satisfy min \<le> Q1 \<le> median \<le> Q3 \<le> max.
  (Below four values the routine returns Q1 = Q3 = 0 whatever the sample.)
\<close>

theorem C2_quartile_ordering:
  assumes "4 \<le> length values"
  shows "Min (set values) \<le> q1 (iqr_stats values)
       \<and> q1 (iqr_stats values) \<le> median values
       \<and> median values \<le> q3 (iqr_stats values)
       \<and> q3 (iqr_stats values) \<le> Max (set values)"
  using quartile_order[OF assms] by simp

theorem C2_quartile_ordering_witness:
  "4 \<le> length [7, 1, 5, 3 :: real]
   \<and> Min (set [7, 1, 5, 3 :: real]) \<le> q1 (iqr_stats [7, 1, 5, 3])
   \<and> q1 (iqr_stats [7, 1, 5, 3]) \<le> median [7, 1, 5, 3]
   \<and> median [7, 1, 5, 3] \<le> q3 (iqr_stats [7, 1, 5, 3])
   \<and> q3 (iqr_stats [7, 1, 5, 3]) \<le> Max (set [7, 1, 5, 3 :: real])"
proof -
  have h: "4 \<le> length [7, 1, 5, 3 :: real]" by simp
  show ?thesis using h C2_quartile_ordering[OF h] by blast
qed

text \<open>
  C2 as stated fails on the one-element sample [5]: the routine returns Q1 = 0 below the
  sample's minimum 5.
\<close>

theorem C2_counterexample:
  "\<not> (Min (set [5 :: real]) \<le> q1 (iqr_stats [5])
      \<and> q1 (iqr_stats [5]) \<le> median [5]
      \<and> median [5] \<le> q3 (iqr_stats [5])
      \<and> q3 (iqr_stats [5]) \<le> Max (set [5 :: real]))"
  by (simp add: iqr_stats_def median_def)

section \<open>Degenerate input of the statistics routines\<close>

subsection \<open>The result of mannWhitneyU\<close>

text \<open>
  Every slot of \<open>ranks\<close> is written before it is read, so that the rank sum is a
  number; the p-value is the literal \<open>NaN\<close> unless both groups hold more than 20
  values.
\<close>

lemma js_div_some: "b \<noteq> 0 \<Longrightarrow> js_div a b = Some (a / b)"
  by (simp add: js_div_def)

lemma js_sqrt_some: "0 \<le> a \<Longrightarrow> js_sqrt a = Some (sqrt a)"
  by (simp add: js_sqrt_def)












subsection \<open>Sums as folds\<close>

lemma foldl_plus_sum_list: "foldl (+) (a :: real) xs = a + sum_list xs"
  by (induction xs arbitrary: a) simp_all

lemma foldl_sq_sum_list:
  "foldl (\<lambda>s rt. s + (rt - m)\<^sup>2) (a :: real) xs = a + sum_list (map (\<lambda>x. (x - m)\<^sup>2) xs)"
  by (induction xs arbitrary: a) simp_all

subsection \<open>Early returns\<close>




subsection \<open>The sort of a zero-variance sample\<close>






text \<open>
  In exact arithmetic the median and the scaled MAD over a record are the embeddings
  of these routines over the reals.
\<close>

lemma insertNum_exact: "insertNum exact a bs = insort a bs"
  by (induction bs) (auto simp add: exact_def)

lemma sortNum_exact: "sortNum exact xs = sort xs"
  by (induction xs) (simp_all add: sortNum_def insertNum_exact)

lemma medianA_exact: "medianA exact xs = median xs"
  by (simp add: medianA_def median_def sortNum_exact Let_def) (simp add: exact_def)

lemma madA_exact: "madA exact xs = mad xs"
  by (simp add: madA_def mad_def medianA_exact Let_def) (simp add: exact_def)

subsection \<open>The modified z-score\<close>





subsection \<open>Skewness and kurtosis\<close>








section \<open>Bounds of the composite scores\<close>

lemma computeLPI_bounds:
  assumes "computeLPI l metrics baselines wp = Some v"
  shows "0 \<le> v \<and> v \<le> 100"
  using assms by (auto simp add: computeLPI_def Let_def split: if_splits)

lemma computeDC_bounds:
  assumes "computeDC a b = Some d"
  shows "0 \<le> d \<and> d \<le> 1"
  using assms by (auto simp add: computeDC_def split: option.splits if_splits)

lemma validLPIs_of_set: "set (validLPIs_of lpis) = {v. Some v \<in> set lpis}"
  by (induction lpis) (auto simp add: validLPIs_of_def split: option.splits)

lemma sum_list_bounds:
  assumes "\<forall>x \<in> set xs. lo \<le> x \<and> x \<le> (hi :: real)"
  shows "real (length xs) * lo \<le> sum_list xs \<and> sum_list xs \<le> real (length xs) * hi"
  using assms by (induction xs) (auto simp add: algebra_simps)

lemma mean_bounds:
  assumes "xs \<noteq> []" "\<forall>x \<in> set xs. 0 \<le> x \<and> x \<le> (100 :: real)"
  shows "0 \<le> sum_list xs / real (length xs)" "sum_list xs / real (length xs) \<le> 100"
proof -
  have n: "0 < real (length xs)" using assms(1) by simp
  have b: "real (length xs) * 0 \<le> sum_list xs \<and> sum_list xs \<le> real (length xs) * 100"
    using sum_list_bounds[OF assms(2)] .
  show "0 \<le> sum_list xs / real (length xs)" using b n by simp
  show "sum_list xs / real (length xs) \<le> 100"
    using b n by (simp add: pos_divide_le_eq mult.commute)
qed

lemma computeCRS_bounds:
  assumes "computeCRS lpis d a = Some c"
    and "\<forall>v. Some v \<in> set lpis \<longrightarrow> 0 \<le> v \<and> v \<le> 100"
  shows "0 \<le> c \<and> c \<le> 100"
proof (cases d)
  case (Some dv)
  then show ?thesis using assms(1)
    by (auto simp add: computeCRS_def Let_def split: if_splits)
next
  case None
  have ne: "validLPIs_of lpis \<noteq> []" and c: "c = sum_list (validLPIs_of lpis) / real (length (validLPIs_of lpis))"
    using assms(1) None
    by (auto simp add: computeCRS_def Let_def validLPIs_of_def foldl_plus_sum_list split: if_splits)
  have "\<forall>x \<in> set (validLPIs_of lpis). 0 \<le> x \<and> x \<le> 100"
    using assms(2) by (simp add: validLPIs_of_set)
  then show ?thesis using mean_bounds[OF ne] c by simp
qed

lemma lpiAt_bounds:
  assumes "lpiAt i lms baselines wp = Some v"
  shows "0 \<le> v \<and> v \<le> 100"
  using assms computeLPI_bounds by (auto simp add: lpiAt_def split: if_splits)

lemma session_crs_bounds:
  assumes "crs (computeSessionScores lms baselines wp) = Some c"
  shows "0 \<le> c \<and> c \<le> 100"
proof -
  let ?ls = "[lpiAt 0 lms baselines wp, lpiAt 1 lms baselines wp,
              lpiAt 2 lms baselines wp, lpiAt 3 lms baselines wp]"
  have c: "computeCRS ?ls (computeDC (lpiAt 0 lms baselines wp) (lpiAt 3 lms baselines wp))
             (Some (alpha (weights wp))) = Some c"
    using assms by (simp add: computeSessionScores_def Let_def)
  have "\<forall>v. Some v \<in> set ?ls \<longrightarrow> 0 \<le> v \<and> v \<le> 100"
    using lpiAt_bounds by (metis empty_iff empty_set set_ConsD)
  then show ?thesis using computeCRS_bounds[OF c] by blast
qed

text \<open>
  C5. Every non-null LPI returned by computeLPI lies in [0,100]; every non-null
  degradation coefficient returned by computeDC lies in [0,1]; every non-null CRS that
  computeCRS returns on layer performance indices (numbers of [0,100] or null) lies in
  [0,100], and so does the CRS of a scored session, for every list of layer metrics,
  baseline map and weight profile.
\<close>

theorem C5_score_bounds:
  "(computeLPI l metrics baselines wp = Some v \<longrightarrow> 0 \<le> v \<and> v \<le> 100)
   \<and> (computeDC a b = Some d \<longrightarrow> 0 \<le> d \<and> d \<le> 1)
   \<and> ((\<forall>x. Some x \<in> set lpis \<longrightarrow> 0 \<le> x \<and> x \<le> 100) \<and> computeCRS lpis dcv al = Some c
        \<longrightarrow> 0 \<le> c \<and> c \<le> 100)
   \<and> (crs (computeSessionScores lms baselines wp) = Some c' \<longrightarrow> 0 \<le> c' \<and> c' \<le> 100)
   \<and> (lpi0 (computeSessionScores lms baselines wp) = Some v0 \<longrightarrow> 0 \<le> v0 \<and> v0 \<le> 100)
   \<and> (lpi3 (computeSessionScores lms baselines wp) = Some v3 \<longrightarrow> 0 \<le> v3 \<and> v3 \<le> 100)
   \<and> (dc (computeSessionScores lms baselines wp) = Some d' \<longrightarrow> 0 \<le> d' \<and> d' \<le> 1)"
proof (intro conjI impI)
  assume "computeLPI l metrics baselines wp = Some v"
  then show "0 \<le> v" "v \<le> 100" using computeLPI_bounds by blast+
next
  assume "computeDC a b = Some d"
  then show "0 \<le> d" "d \<le> 1" using computeDC_bounds by blast+
next
  assume "(\<forall>x. Some x \<in> set lpis \<longrightarrow> 0 \<le> x \<and> x \<le> 100) \<and> computeCRS lpis dcv al = Some c"
  then show "0 \<le> c" "c \<le> 100" using computeCRS_bounds by blast+
next
  assume "crs (computeSessionScores lms baselines wp) = Some c'"
  then show "0 \<le> c'" "c' \<le> 100" using session_crs_bounds by blast+
next
  assume "lpi0 (computeSessionScores lms baselines wp) = Some v0"
  then have "lpiAt 0 lms baselines wp = Some v0" by (simp add: computeSessionScores_def Let_def)
  then show "0 \<le> v0" "v0 \<le> 100" using lpiAt_bounds by blast+
next
  assume "lpi3 (computeSessionScores lms baselines wp) = Some v3"
  then have "lpiAt 3 lms baselines wp = Some v3" by (simp add: computeSessionScores_def Let_def)
  then show "0 \<le> v3" "v3 \<le> 100" using lpiAt_bounds by blast+
next
  assume "dc (computeSessionScores lms baselines wp) = Some d'"
  then have "computeDC (lpiAt 0 lms baselines wp) (lpiAt 3 lms baselines wp) = Some d'"
    by (simp add: computeSessionScores_def Let_def)
  then show "0 \<le> d'" "d' \<le> 1" using computeDC_bounds by blast+
qed

lemma sample_lpi0: "computeLPI 0 sampleL0 sampleBaselines balancedProfile = Some (115 / 2)"
  by (simp add: computeLPI_def extractMetricsForLayer_def layerMetricDefs_def layerWeightsOf_def
      sampleL0_def emptyMetrics_def balancedProfile_def metricScore_def baselineKey_def
      sampleBaselines_def linearNormalization_def estimatePercentileFromStats_def
      MIN_BASELINE_SESSIONS_def Let_def)

lemma sample_lpi3: "computeLPI 3 sampleL3 sampleBaselines balancedProfile = Some 50"
  by (simp add: computeLPI_def extractMetricsForLayer_def layerMetricDefs_def layerWeightsOf_def
      sampleL3_def emptyMetrics_def balancedProfile_def metricScore_def baselineKey_def
      sampleBaselines_def linearNormalization_def Let_def)

lemma sample_lpi_none:
  "computeLPI 1 sampleL0 sampleBaselines balancedProfile = None"
  "computeLPI 2 sampleL0 sampleBaselines balancedProfile = None"
  by (simp_all add: computeLPI_def extractMetricsForLayer_def layerMetricDefs_def
      sampleL0_def emptyMetrics_def Let_def)

lemma sample_session:
  "computeSessionScores [sampleL0, sampleL0, sampleL0, sampleL3] sampleBaselines balancedProfile
   = \<lparr>lpi0 = Some (115 / 2), lpi1 = None, lpi2 = None, lpi3 = Some 50,
      dc = Some (20 / 23), crs = Some (27723 / 368), alert = None\<rparr>"
proof -
  let ?ms = "[sampleL0, sampleL0, sampleL0, sampleL3]"
  have a0: "lpiAt 0 ?ms sampleBaselines balancedProfile = Some (115 / 2)"
    by (simp add: lpiAt_def sample_lpi0)
  have a1: "lpiAt 1 ?ms sampleBaselines balancedProfile = None"
    using sample_lpi_none(1) by (simp add: lpiAt_def)
  have a2: "lpiAt 2 ?ms sampleBaselines balancedProfile = None"
    by (simp add: lpiAt_def sample_lpi_none)
  have a3: "lpiAt 3 ?ms sampleBaselines balancedProfile = Some 50"
    by (simp add: lpiAt_def sample_lpi3)
  have bc: "sampleBaselines ''crs'' = None" by (simp add: sampleBaselines_def)
  have al: "alpha (weights balancedProfile) = 35 / 100" by (simp add: balancedProfile_def)
  show ?thesis
    using a0 a1 a2 a3 bc al
    by (simp add: computeSessionScores_def computeDC_def computeCRS_def
        DC_VALIDITY_THRESHOLD_def Let_def)
qed

theorem C5_score_bounds_witness:
  "computeLPI 0 sampleL0 sampleBaselines balancedProfile = Some (115 / 2)
   \<and> (0 :: real) \<le> 115 / 2 \<and> (115 / 2 :: real) \<le> 100
   \<and> computeDC (Some (115 / 2)) (Some 50) = Some (20 / 23)
   \<and> (0 :: real) \<le> 20 / 23 \<and> (20 / 23 :: real) \<le> 1
   \<and> computeCRS [Some (115 / 2), None, None, Some 50] None None = Some (215 / 4)
   \<and> (0 :: real) \<le> 215 / 4 \<and> (215 / 4 :: real) \<le> 100
   \<and> crs (computeSessionScores [sampleL0, sampleL0, sampleL0, sampleL3] sampleBaselines
        balancedProfile) = Some (27723 / 368)
   \<and> (0 :: real) \<le> 27723 / 368 \<and> (27723 / 368 :: real) \<le> 100"
proof -
  have d: "computeDC (Some (115 / 2)) (Some 50) = Some (20 / 23)"
    by (simp add: computeDC_def DC_VALIDITY_THRESHOLD_def)
  have c: "computeCRS [Some (115 / 2), None, None, Some 50] None None = Some (215 / 4)"
    by (simp add: computeCRS_def Let_def)
  have r: "\<forall>x :: real. Some x \<in> set [Some (115 / 2), None, None, Some 50] \<longrightarrow> 0 \<le> x \<and> x \<le> 100"
    by auto
  have s: "crs (computeSessionScores [sampleL0, sampleL0, sampleL0, sampleL3] sampleBaselines
        balancedProfile) = Some (27723 / 368)"
    by (simp add: sample_session)
  note b = C5_score_bounds[of 0 sampleL0 sampleBaselines balancedProfile "115 / 2"
      "Some (115 / 2)" "Some 50" "20 / 23" "[Some (115 / 2), None, None, Some 50]" None None
      "215 / 4" "[sampleL0, sampleL0, sampleL0, sampleL3]" "27723 / 368"]
  show ?thesis using b sample_lpi0 d c r s by blast
qed

section \<open>Degradation coefficient\<close>

text \<open>
  C6. The degradation coefficient is LPI(layer 3) / LPI(layer 0) clamped to [0,1]; it is
  null when either LPI is null and whenever LPI(layer 0) is below the validity floor 15;
  for LPI0 = 10 it is null whatever LPI3 is.
\<close>

theorem C6_degradation_coefficient:
  "computeDC None l3o = None
   \<and> computeDC l0o None = None
   \<and> (l0 < 15 \<longrightarrow> computeDC (Some l0) l3o = None)
   \<and> (15 \<le> l0 \<longrightarrow> computeDC (Some l0) (Some l3) = Some (max 0 (min 1 (l3 / l0))))
   \<and> (15 \<le> l0 \<and> l3 < 0 \<longrightarrow> computeDC (Some l0) (Some l3) = Some 0)
   \<and> (15 \<le> l0 \<and> 0 \<le> l3 \<and> l3 \<le> l0 \<longrightarrow> computeDC (Some l0) (Some l3) = Some (l3 / l0))
   \<and> (15 \<le> l0 \<and> l0 < l3 \<longrightarrow> computeDC (Some l0) (Some l3) = Some 1)
   \<and> computeDC (Some 10) l3o = None"
proof -
  have neg: "l3 / l0 < 0" if "15 \<le> l0" "l3 < 0"
    using that by (simp add: divide_neg_pos)
  have mid: "0 \<le> l3 / l0 \<and> l3 / l0 \<le> 1" if "15 \<le> l0" "0 \<le> l3" "l3 \<le> l0"
    using that by simp
  have big: "1 < l3 / l0" if "15 \<le> l0" "l0 < l3"
    using that by simp
  show ?thesis
    using neg mid big
    by (auto simp add: computeDC_def DC_VALIDITY_THRESHOLD_def max_def min_def
        split: option.splits)
qed

theorem C6_degradation_coefficient_witness:
  "(10 :: real) < 15 \<and> computeDC (Some 10) (Some 99) = None
   \<and> (15 :: real) \<le> 20 \<and> (0 :: real) \<le> 10 \<and> (10 :: real) \<le> 20
   \<and> computeDC (Some 20) (Some 10) = Some (1 / 2)
   \<and> (20 :: real) < 50 \<and> computeDC (Some 20) (Some 50) = Some 1
   \<and> computeDC (Some 15) (Some (- 3)) = Some 0"
  using C6_degradation_coefficient[of "Some 99" None 10 0]
    C6_degradation_coefficient[of None None 20 10]
    C6_degradation_coefficient[of None None 20 50]
    C6_degradation_coefficient[of None None 15 "- 3"]
  by simp

section \<open>Event recorder\<close>

lemma recordEvent_full:
  assumes "eventIndex s \<ge> MAX_EVENTS"
  shows "recordEvent e s = s\<lparr>outputs := outputs s @ [ConsoleWarn bufferFullMessage]\<rparr>"
  using assms by (simp add: recordEvent_def emit_def)

lemma recordEvent_store:
  assumes "eventIndex s < MAX_EVENTS" "length (events s) = MAX_EVENTS"
  shows "eventIndex (recordEvent e s) = eventIndex s + 1"
    and "events (recordEvent e s) =
          (events s)[eventIndex s := \<lparr>ev_sessionId = sessionId s, ev_layer = in_layer e,
              eventType = in_eventType e, timestampUs = in_timestampUs e, ev_data = in_data e\<rparr>]"
    and "getEvents (recordEvent e s) =
          getEvents s @ [\<lparr>ev_sessionId = sessionId s, ev_layer = in_layer e,
              eventType = in_eventType e, timestampUs = in_timestampUs e, ev_data = in_data e\<rparr>]"
proof -
  let ?ev = "\<lparr>ev_sessionId = sessionId s, ev_layer = in_layer e,
              eventType = in_eventType e, timestampUs = in_timestampUs e, ev_data = in_data e\<rparr>"
  have ev: "(events s ! eventIndex s)\<lparr>ev_sessionId := sessionId s, ev_layer := in_layer e,
      eventType := in_eventType e, timestampUs := in_timestampUs e, ev_data := in_data e\<rparr> = ?ev"
    by (cases "events s ! eventIndex s") simp
  show i: "eventIndex (recordEvent e s) = eventIndex s + 1"
    using assms(1) by (simp add: recordEvent_def emit_def Let_def)
  show l: "events (recordEvent e s) = (events s)[eventIndex s := ?ev]"
    using assms(1) by (simp add: recordEvent_def emit_def Let_def) (simp only: ev)
  have "take (Suc (eventIndex s)) ((events s)[eventIndex s := ?ev])
        = take (eventIndex s) (events s) @ [?ev]"
    using assms by (simp add: take_Suc_conv_app_nth)
  then show "getEvents (recordEvent e s) = getEvents s @ [?ev]"
    using i l by (simp add: getEvents_def)
qed

lemma recordEvent_session:
  "phase (recordEvent e s) = phase s"
  "isRunning (recordEvent e s) = isRunning s"
  "isPaused (recordEvent e s) = isPaused s"
  "currentLayer (recordEvent e s) = currentLayer s"
  by (simp_all add: recordEvent_def emit_def Let_def)

text \<open>
  C9. The capacity is 50,000 events. When the write cursor has reached capacity, a further
  append changes nothing but the console, where the buffer-full warning is raised: the
  event log and the cursor are unchanged, the recorded events read the same in the same
  order, and the session's phase and running flags are as before. Below capacity (the log
  being the pre-allocated array), an append stores the event, with the session id, at the
  cursor, advances the cursor by one, and the recorded events are the earlier ones
  followed by the new one.
\<close>

theorem C9_event_capacity:
  "MAX_EVENTS = 50000
   \<and> (eventIndex s \<ge> MAX_EVENTS \<longrightarrow>
        recordEvent e s = s\<lparr>outputs := outputs s @ [ConsoleWarn bufferFullMessage]\<rparr>
        \<and> events (recordEvent e s) = events s
        \<and> eventIndex (recordEvent e s) = eventIndex s
        \<and> getEvents (recordEvent e s) = getEvents s
        \<and> phase (recordEvent e s) = phase s
        \<and> isRunning (recordEvent e s) = isRunning s
        \<and> isPaused (recordEvent e s) = isPaused s)
   \<and> (eventIndex s < MAX_EVENTS \<and> length (events s) = MAX_EVENTS \<longrightarrow>
        eventIndex (recordEvent e s) = eventIndex s + 1
        \<and> events (recordEvent e s) ! eventIndex s =
            \<lparr>ev_sessionId = sessionId s, ev_layer = in_layer e, eventType = in_eventType e,
             timestampUs = in_timestampUs e, ev_data = in_data e\<rparr>
        \<and> getEvents (recordEvent e s) =
            getEvents s @ [\<lparr>ev_sessionId = sessionId s, ev_layer = in_layer e,
              eventType = in_eventType e, timestampUs = in_timestampUs e, ev_data = in_data e\<rparr>]
        \<and> length (events (recordEvent e s)) = MAX_EVENTS
        \<and> outputs (recordEvent e s) =
            outputs s @ (if onEvent s then [OnEvent \<lparr>ev_sessionId = sessionId s,
              ev_layer = in_layer e, eventType = in_eventType e,
              timestampUs = in_timestampUs e, ev_data = in_data e\<rparr>] else []))"
proof (intro conjI impI)
  show "MAX_EVENTS = 50000" by (simp add: MAX_EVENTS_def)
next
  assume full: "MAX_EVENTS \<le> eventIndex s"
  show f: "recordEvent e s = s\<lparr>outputs := outputs s @ [ConsoleWarn bufferFullMessage]\<rparr>"
    using full by (rule recordEvent_full)
  show "events (recordEvent e s) = events s" by (simp add: f)
  show "eventIndex (recordEvent e s) = eventIndex s" by (simp add: f)
  show "getEvents (recordEvent e s) = getEvents s" by (simp add: f getEvents_def)
  show "phase (recordEvent e s) = phase s" by (simp add: f)
  show "isRunning (recordEvent e s) = isRunning s" by (simp add: f)
  show "isPaused (recordEvent e s) = isPaused s" by (simp add: f)
next
  assume below: "eventIndex s < MAX_EVENTS \<and> length (events s) = MAX_EVENTS"
  then have b: "eventIndex s < MAX_EVENTS" and l: "length (events s) = MAX_EVENTS" by simp_all
  show "eventIndex (recordEvent e s) = eventIndex s + 1"
    using recordEvent_store(1)[OF b l] .
  show "events (recordEvent e s) ! eventIndex s =
          \<lparr>ev_sessionId = sessionId s, ev_layer = in_layer e, eventType = in_eventType e,
           timestampUs = in_timestampUs e, ev_data = in_data e\<rparr>"
    using b l by (simp add: recordEvent_store(2)[OF b l])
  show "getEvents (recordEvent e s) =
          getEvents s @ [\<lparr>ev_sessionId = sessionId s, ev_layer = in_layer e,
            eventType = in_eventType e, timestampUs = in_timestampUs e, ev_data = in_data e\<rparr>]"
    using recordEvent_store(3)[OF b l] .
  show "length (events (recordEvent e s)) = MAX_EVENTS"
    using l by (simp add: recordEvent_store(2)[OF b l])
  have ev: "(events s ! eventIndex s)\<lparr>ev_sessionId := sessionId s, ev_layer := in_layer e,
      eventType := in_eventType e, timestampUs := in_timestampUs e, ev_data := in_data e\<rparr>
      = \<lparr>ev_sessionId = sessionId s, ev_layer = in_layer e, eventType = in_eventType e,
         timestampUs = in_timestampUs e, ev_data = in_data e\<rparr>"
    by (cases "events s ! eventIndex s") simp
  show "outputs (recordEvent e s) =
          outputs s @ (if onEvent s then [OnEvent \<lparr>ev_sessionId = sessionId s,
            ev_layer = in_layer e, eventType = in_eventType e,
            timestampUs = in_timestampUs e, ev_data = in_data e\<rparr>] else [])"
    using b ev by (simp add: recordEvent_def emit_def Let_def)
qed

lemma sampleEngine_log:
  "events sampleEngine = replicate MAX_EVENTS (blankEvent ''s1'')"
  "eventIndex sampleEngine = 0"
  "sessionId sampleEngine = ''s1''"
  "onEvent sampleEngine"
  "outputs sampleEngine = []"
  by (simp_all add: sampleEngine_def newTestEngine_def)

theorem C9_event_capacity_witness:
  "eventIndex (sampleEngine\<lparr>eventIndex := 50000\<rparr>) \<ge> MAX_EVENTS
   \<and> getEvents (recordEvent sampleInput (sampleEngine\<lparr>eventIndex := 50000\<rparr>))
       = replicate 50000 (blankEvent ''s1'')
   \<and> eventIndex (recordEvent sampleInput (sampleEngine\<lparr>eventIndex := 50000\<rparr>)) = 50000
   \<and> outputs (recordEvent sampleInput (sampleEngine\<lparr>eventIndex := 50000\<rparr>))
       = [ConsoleWarn bufferFullMessage]
   \<and> eventIndex sampleEngine < MAX_EVENTS
   \<and> length (events sampleEngine) = MAX_EVENTS
   \<and> eventIndex (recordEvent sampleInput sampleEngine) = 1
   \<and> getEvents (recordEvent sampleInput sampleEngine)
       = [\<lparr>ev_sessionId = ''s1'', ev_layer = 0, eventType = click, timestampUs = 1250000,
           ev_data = noData\<lparr>d_x := Some 10, d_y := Some 20\<rparr>\<rparr>]"
proof -
  let ?full = "sampleEngine\<lparr>eventIndex := 50000\<rparr>"
  have hf: "eventIndex ?full \<ge> MAX_EVENTS" by (simp add: MAX_EVENTS_def)
  have hb: "eventIndex sampleEngine < MAX_EVENTS \<and> length (events sampleEngine) = MAX_EVENTS"
    by (simp add: sampleEngine_log MAX_EVENTS_def)
  have gf: "getEvents ?full = replicate 50000 (blankEvent ''s1'')"
    by (simp add: getEvents_def sampleEngine_log MAX_EVENTS_def)
  have g0: "getEvents sampleEngine = []" by (simp add: getEvents_def sampleEngine_log)
  note f = C9_event_capacity[of ?full sampleInput]
  note b = C9_event_capacity[of sampleEngine sampleInput]
  have f1: "getEvents (recordEvent sampleInput ?full) = getEvents ?full"
    and f2: "eventIndex (recordEvent sampleInput ?full) = eventIndex ?full"
    and f3: "recordEvent sampleInput ?full
             = ?full\<lparr>outputs := outputs ?full @ [ConsoleWarn bufferFullMessage]\<rparr>"
    using f hf by blast+
  have b1: "eventIndex (recordEvent sampleInput sampleEngine) = eventIndex sampleEngine + 1"
    and b2: "getEvents (recordEvent sampleInput sampleEngine)
             = getEvents sampleEngine @ [\<lparr>ev_sessionId = sessionId sampleEngine,
                 ev_layer = in_layer sampleInput, eventType = in_eventType sampleInput,
                 timestampUs = in_timestampUs sampleInput, ev_data = in_data sampleInput\<rparr>]"
    using b hb by blast+
  have 1: "getEvents (recordEvent sampleInput ?full) = replicate 50000 (blankEvent ''s1'')"
    using f1 gf by simp
  have 2: "eventIndex (recordEvent sampleInput ?full) = 50000"
    using f2 by simp
  have 3: "outputs (recordEvent sampleInput ?full) = [ConsoleWarn bufferFullMessage]"
    by (simp add: f3 sampleEngine_log)
  have 4: "eventIndex (recordEvent sampleInput sampleEngine) = 1"
    using b1 by (simp add: sampleEngine_log)
  have 5: "getEvents (recordEvent sampleInput sampleEngine)
       = [\<lparr>ev_sessionId = ''s1'', ev_layer = 0, eventType = click, timestampUs = 1250000,
           ev_data = noData\<lparr>d_x := Some 10, d_y := Some 20\<rparr>\<rparr>]"
    using b2 g0 by (simp add: sampleEngine_log sampleInput_def)
  show ?thesis using hf hb 1 2 3 4 5 by blast
qed

section \<open>Target kinematics\<close>










lemma bounceY_reflects:
  assumes "pos_y (targetPosition s) \<le> targetRadius s
           \<or> pos_y (targetPosition s) \<ge> height (monitorResolution (config s)) - targetRadius s"
  shows "vy (targetVelocity (bounceY s)) = - vy (targetVelocity s)"
    and "\<not> isSteeringToGoal (bounceY s)"
  using assms by (auto simp add: bounceY_def Let_def)








section \<open>Starting a test\<close>

lemma start_from_idle:
  assumes "\<not> isRunning s"
  defines "r \<equiv> env_random s (randomCalls s)"
  shows "phase (start s) = Running"
    and "currentLayer (start s) = 0"
    and "isRunning (start s)"
    and "isPaused (start s) = isPaused s"
    and "eventIndex (start s) = 0"
    and "systemStallCount (start s) = 0"
    and "testStartTime (start s) = env_clock s (clockCalls s)"
    and "layerStartTime (start s) = env_clock s (clockCalls s + 1)"
    and "lastFrameTime (start s) = layerStartTime (start s)"
    and "nextSimpleStimulusTime (start s) = layerStartTime (start s) + (800 + r * (2000 - 800))"
    and "stimulusState (start s) = initialStimulusState"
    and "animationFrameId (start s) = Some (frameRequests s)"
    and "outputs (start s) = outputs s
           @ (if onStimulusUpdate s then [OnStimulusUpdate initialStimulusState] else [])
           @ (if onStateUpdate s then [OnStateUpdate
                \<lparr>ts_currentLayer = 0, ts_layerStartTime = env_clock s (clockCalls s + 1),
                 layerDuration = 30000, ts_isRunning = True, ts_isPaused = isPaused s,
                 ts_phase = Running\<rparr>] else [])
           @ [RequestAnimationFrame (frameRequests s)]"
  using assms
  by (simp_all add: start_def startLayer_def resetLayerState_def randomInterval_def
      performance_now_def Math_random_def emitStimulusUpdate_def emitStateUpdate_def emit_def
      requestAnimationFrame_def getState_def LAYER_DURATIONS_def L0_STIMULUS_INTERVAL_def
      initialStimulusState_def Let_def)

lemma start_phases:
  assumes "\<not> isRunning s"
  shows "phasesReported (drop (length (outputs s)) (outputs (start s)))
         = (if onStateUpdate s then [Running] else [])"
  by (simp add: start_from_idle(13)[OF assms])

lemma stop_idle: "phase (stop s) = Idle \<and> \<not> isRunning (stop s)"
  by (simp add: stop_def emitStateUpdate_def emit_def Let_def split: option.splits)

lemma new_idle:
  "phase (newTestEngine sid cfg c r) = Idle \<and> \<not> isRunning (newTestEngine sid cfg c r)"
  by (simp add: newTestEngine_def)

text \<open>
  C4 (as amended). Calling start() on an engine in the Idle phase (which is not running:
  so it is after construction and after stop()) takes it directly into Running with
  currentLayer = 0; the engine has no countdown of its own, and the only phase its state
  listener is notified of is Running. The call resets the event cursor and the stall
  count and initialises the schedule of layer 0: no stimulus is shown, and the first
  simple-stimulus time is committed at layer start as layerStartTime + 800 + r * 1200
  for the random draw r, which lies in [layerStartTime + 800, layerStartTime + 2000)
  when r is in [0, 1).
\<close>

theorem C4_start:
  assumes "phase s = Idle" and "\<not> isRunning s"
    and "0 \<le> env_random s (randomCalls s)" and "env_random s (randomCalls s) < 1"
  shows "phase (start s) = Running
       \<and> currentLayer (start s) = 0
       \<and> isRunning (start s)
       \<and> eventIndex (start s) = 0
       \<and> systemStallCount (start s) = 0
       \<and> layerStartTime (start s) = env_clock s (clockCalls s + 1)
       \<and> nextSimpleStimulusTime (start s)
           = layerStartTime (start s) + (800 + env_random s (randomCalls s) * 1200)
       \<and> layerStartTime (start s) + 800 \<le> nextSimpleStimulusTime (start s)
       \<and> nextSimpleStimulusTime (start s) < layerStartTime (start s) + 2000
       \<and> simpleStimulus (stimulusState (start s)) = None
       \<and> phasesReported (drop (length (outputs s)) (outputs (start s)))
           = (if onStateUpdate s then [Running] else [])
       \<and> phase (stop (start s)) = Idle
       \<and> phase (newTestEngine sid cfg clk rnd) = Idle
       \<and> \<not> isRunning (newTestEngine sid cfg clk rnd)"
proof -
  note f = start_from_idle[OF assms(2)]
  have n: "nextSimpleStimulusTime (start s)
           = layerStartTime (start s) + (800 + env_random s (randomCalls s) * 1200)"
    using f(10) by simp
  have lo: "layerStartTime (start s) + 800 \<le> nextSimpleStimulusTime (start s)"
    using n assms(3) by simp
  have hi: "nextSimpleStimulusTime (start s) < layerStartTime (start s) + 2000"
    using n assms(4) by simp
  have st: "simpleStimulus (stimulusState (start s)) = None"
    by (simp add: f(11) initialStimulusState_def)
  show ?thesis
    using f(1,2,3,5,6,8) n lo hi st start_phases[OF assms(2)] stop_idle new_idle by simp
qed

lemma sampleEngine_idle:
  "phase sampleEngine = Idle"
  "\<not> isRunning sampleEngine"
  "env_random sampleEngine (randomCalls sampleEngine) = 1 / 2"
  "env_clock sampleEngine (Suc (clockCalls sampleEngine)) = 1016"
  "onStateUpdate sampleEngine"
  "outputs sampleEngine = []"
  by (simp_all add: sampleEngine_def newTestEngine_def)

theorem C4_start_witness:
  "phase sampleEngine = Idle \<and> \<not> isRunning sampleEngine
   \<and> 0 \<le> env_random sampleEngine (randomCalls sampleEngine)
   \<and> env_random sampleEngine (randomCalls sampleEngine) < 1
   \<and> phase (start sampleEngine) = Running
   \<and> currentLayer (start sampleEngine) = 0
   \<and> layerStartTime (start sampleEngine) = 1016
   \<and> nextSimpleStimulusTime (start sampleEngine) = 2416
   \<and> phasesReported (outputs (start sampleEngine)) = [Running]"
proof -
  have h: "phase sampleEngine = Idle" "\<not> isRunning sampleEngine"
    "0 \<le> env_random sampleEngine (randomCalls sampleEngine)"
    "env_random sampleEngine (randomCalls sampleEngine) < 1"
    by (simp_all add: sampleEngine_idle)
  show ?thesis
    using h C4_start[OF h, of "''s1''" sampleConfig "\<lambda>n. 0" "\<lambda>n. 0"]
    by (simp add: sampleEngine_idle)
qed

text \<open>
  C4 as stated has the engine pass through a Countdown phase. On the sample engine, the
  phase before the call, the phases its state listener is notified of during the call
  and the phase after the call are Idle, Running and Running: Countdown is not among them.
\<close>

theorem C4_counterexample:
  "\<not> (Countdown \<in> set (phase sampleEngine # phasesReported (outputs (start sampleEngine))
                        @ [phase (start sampleEngine)]))"
  using start_from_idle(1)[OF sampleEngine_idle(2)] start_phases[OF sampleEngine_idle(2)]
  by (simp add: sampleEngine_idle)

section \<open>Reaction time (layer 0)\<close>

lemma find_append:
  "find P (xs @ ys) = (case find P xs of None \<Rightarrow> find P ys | Some x \<Rightarrow> Some x)"
  by (induction xs) simp_all

lemma find_rev_none:
  "find (\<lambda>s. f s < (t::real)) (rev xs) = None \<longleftrightarrow> filter (\<lambda>u. u < t) (map f xs) = []"
  by (auto simp add: find_None_iff filter_empty_conv)

lemma find_rev_latest:
  assumes "sorted (map f xs)" "find (\<lambda>s. f s < (t::real)) (rev xs) = Some m"
  shows "f m < t \<and> m \<in> set xs \<and> (\<forall>s \<in> set xs. f s < t \<longrightarrow> f s \<le> f m)"
  using assms
proof (induction xs)
  case Nil
  then show ?case by simp
next
  case (Cons x xs)
  have srt: "sorted (map f xs)" and le: "\<forall>y \<in> set xs. f x \<le> f y"
    using Cons.prems(1) by auto
  show ?case
  proof (cases "find (\<lambda>s. f s < t) (rev xs)")
    case None
    then have m: "m = x" and px: "f x < t" using Cons.prems(2)
      by (auto simp add: find_append split: if_splits)
    have "\<forall>s \<in> set xs. \<not> f s < t" using None by (auto simp add: find_None_iff)
    then show ?thesis using m px by auto
  next
    case (Some m')
    then have "m' = m" using Cons.prems(2) by (simp add: find_append)
    then have ih: "f m < t \<and> m \<in> set xs \<and> (\<forall>s \<in> set xs. f s < t \<longrightarrow> f s \<le> f m)"
      using Cons.IH[OF srt] Some by simp
    then have "f x \<le> f m" using le by blast
    then show ?thesis using ih by auto
  qed
qed

lemma find_rev_Max:
  assumes "sorted (map f xs)" "find (\<lambda>s. f s < (t::real)) (rev xs) = Some m"
  shows "f m = Max (set (filter (\<lambda>u. u < t) (map f xs)))"
proof -
  note l = find_rev_latest[OF assms]
  have "f m \<in> set (filter (\<lambda>u. u < t) (map f xs))" using l by auto
  moreover have "\<forall>u \<in> set (filter (\<lambda>u. u < t) (map f xs)). u \<le> f m" using l by auto
  ultimately show ?thesis by (intro Max_eqI[symmetric]) auto
qed

lemma rtStimuli_times:
  "set (filter (\<lambda>u. u < t) (map timestampUs (rtStimuli es))) = set (onsetsBefore es t)"
  by (auto simp add: rtStimuli_def sortByTime_def onsetsBefore_def)

lemma rtMs_clickLatency: "rtMs (rtStimuli es) c = clickLatency es c"
proof (cases "matchedStimulus (rtStimuli es) c")
  case None
  then have "filter (\<lambda>u. u < timestampUs c) (map timestampUs (rtStimuli es)) = []"
    by (simp add: matchedStimulus_def find_rev_none)
  then have "set (onsetsBefore es (timestampUs c)) = {}"
    using rtStimuli_times[of "timestampUs c" es] by simp
  then show ?thesis using None
    by (simp add: rtMs_def clickLatency_def nearestPrecedingOnset_def)
next
  case (Some m)
  have srt: "sorted (map timestampUs (rtStimuli es))"
    by (simp add: rtStimuli_def sortByTime_def)
  have f: "find (\<lambda>s. timestampUs s < timestampUs c) (rev (rtStimuli es)) = Some m"
    using Some by (simp add: matchedStimulus_def)
  have mx: "timestampUs m = Max (set (onsetsBefore es (timestampUs c)))"
    using find_rev_Max[OF srt f] rtStimuli_times[of "timestampUs c" es] by simp
  have "filter (\<lambda>u. u < timestampUs c) (map timestampUs (rtStimuli es)) \<noteq> []"
    using f find_rev_none[of timestampUs "timestampUs c" "rtStimuli es"] by simp
  then have "set (onsetsBefore es (timestampUs c)) \<noteq> {}"
    using rtStimuli_times[of "timestampUs c" es] by (metis set_empty)
  then have ne: "onsetsBefore es (timestampUs c) \<noteq> []" by auto
  show ?thesis using Some mx ne
    by (simp add: rtMs_def clickLatency_def nearestPrecedingOnset_def)
qed

lemma rt_fold:
  "foldl (rtStep st) (v, a, l) rs =
     (v @ filter (\<lambda>x. classifyRT x = Valid) (latenciesOf st rs),
      a + length (filter (\<lambda>x. classifyRT x = Anticipation) (latenciesOf st rs)),
      l + length (filter (\<lambda>x. classifyRT x = Lapse) (latenciesOf st rs)))"
proof (induction rs arbitrary: v a l)
  case Nil
  then show ?case by (simp add: latenciesOf_def)
next
  case (Cons r rs)
  show ?case
  proof (cases "rtMs st r")
    case None
    then have s: "rtStep st (v, a, l) r = (v, a, l)" by (simp add: rtStep_def)
    have "latenciesOf st (r # rs) = latenciesOf st rs" using None by (simp add: latenciesOf_def)
    then show ?thesis using Cons.IH[of v a l] s by simp
  next
    case (Some x)
    have lat: "latenciesOf st (r # rs) = x # latenciesOf st rs"
      using Some by (simp add: latenciesOf_def)
    consider (ant) "x < 100" | (lap) "\<not> x < 100" "x > 1500" | (val) "\<not> x < 100" "\<not> x > 1500"
      by blast
    then show ?thesis
    proof cases
      case ant
      then have "rtStep st (v, a, l) r = (v, a + 1, l)"
        using Some by (simp add: rtStep_def RT_MIN_MS_def)
      then show ?thesis using Cons.IH[of v "a + 1" l] lat ant by (simp add: classifyRT_def)
    next
      case lap
      then have "rtStep st (v, a, l) r = (v, a, l + 1)"
        using Some by (simp add: rtStep_def RT_MIN_MS_def RT_MAX_MS_def)
      then show ?thesis using Cons.IH[of v a "l + 1"] lat lap by (simp add: classifyRT_def)
    next
      case val
      then have "rtStep st (v, a, l) r = (v @ [x], a, l)"
        using Some by (simp add: rtStep_def RT_MIN_MS_def RT_MAX_MS_def)
      then show ?thesis using Cons.IH[of "v @ [x]" a l] lat val by (simp add: classifyRT_def)
    qed
  qed
qed

lemma latenciesOf_matched: "latenciesOf (rtStimuli es) (rtResponses es) = matchedLatencies es"
  by (simp add: latenciesOf_def matchedLatencies_def rtMs_clickLatency)

lemma reactionTime_spec:
  "r_anticipationCount (reactionTime es)
     = length (filter (\<lambda>l. classifyRT l = Anticipation) (matchedLatencies es))"
  "r_lapseCount (reactionTime es)
     = length (filter (\<lambda>l. classifyRT l = Lapse) (matchedLatencies es))"
  "r_meanRT (reactionTime es)
     = (if validLatencies es = [] then 0 else meanOf (validLatencies es))"
  "r_rtVariance (reactionTime es)
     = (if validLatencies es = [] then 0 else varianceOf (validLatencies es))"
  "r_rtStd (reactionTime es)
     = (if validLatencies es = [] then 0 else sqrt (varianceOf (validLatencies es)))"
proof -
  have f: "foldl (rtStep (rtStimuli es)) ([], 0, 0) (rtResponses es)
        = (validLatencies es,
           length (filter (\<lambda>l. classifyRT l = Anticipation) (matchedLatencies es)),
           length (filter (\<lambda>l. classifyRT l = Lapse) (matchedLatencies es)))"
    by (simp add: rt_fold latenciesOf_matched validLatencies_def)
  show "r_anticipationCount (reactionTime es)
     = length (filter (\<lambda>l. classifyRT l = Anticipation) (matchedLatencies es))"
    by (simp add: reactionTime_def Let_def f)
  show "r_lapseCount (reactionTime es)
     = length (filter (\<lambda>l. classifyRT l = Lapse) (matchedLatencies es))"
    by (simp add: reactionTime_def Let_def f)
  show "r_meanRT (reactionTime es)
     = (if validLatencies es = [] then 0 else meanOf (validLatencies es))"
    by (simp add: reactionTime_def Let_def f meanOf_def foldl_plus_sum_list)
  show "r_rtVariance (reactionTime es)
     = (if validLatencies es = [] then 0 else varianceOf (validLatencies es))"
    by (simp add: reactionTime_def Let_def f meanOf_def varianceOf_def foldl_plus_sum_list
        foldl_sq_sum_list)
  show "r_rtStd (reactionTime es)
     = (if validLatencies es = [] then 0 else sqrt (varianceOf (validLatencies es)))"
    by (simp add: reactionTime_def Let_def f meanOf_def varianceOf_def foldl_plus_sum_list
        foldl_sq_sum_list)
qed

lemma scenarioA_result:
  "responseLatencies scenarioA = [Some 250]"
  "reactionTime scenarioA = \<lparr>r_meanRT = 250, r_rtVariance = 0, r_rtStd = 0,
      r_anticipationCount = 0, r_lapseCount = 0\<rparr>"
  by (simp_all add: responseLatencies_def reactionTime_def rtStimuli_def rtResponses_def
      sortByTime_def scenarioA_def eventAt_def rtStep_def rtMs_def matchedStimulus_def
      RT_MIN_MS_def RT_MAX_MS_def Let_def)

lemma scenarioB_result:
  "responseLatencies scenarioB = [Some (1 / 20)]"
  "reactionTime scenarioB = \<lparr>r_meanRT = 0, r_rtVariance = 0, r_rtStd = 0,
      r_anticipationCount = 1, r_lapseCount = 0\<rparr>"
  by (simp_all add: responseLatencies_def reactionTime_def rtStimuli_def rtResponses_def
      sortByTime_def scenarioB_def eventAt_def rtStep_def rtMs_def matchedStimulus_def
      RT_MIN_MS_def RT_MAX_MS_def Let_def)

text \<open>
  C7 (as amended). In the layer-0 reaction-time computation, the latency of each click is
  measured from the nearest preceding stimulus onset (the latest onset strictly before
  the click), in milliseconds; clicks without one are left out. A latency below 100 ms
  counts as anticipation, one above 1500 ms as lapse, any other is valid, and mean,
  variance and standard deviation are those of the valid latencies (all 0 when there is
  none). A stimulus at 1,000,000 us with a click at 1,250,000 us yields RT = 250 ms,
  valid; a click at 1,000,050 us yields RT = 0.05 ms (50 us), an anticipation, which is
  excluded from the mean, with anticipationCount = 1.
\<close>

theorem C7_reaction_time:
  "responseLatencies es = map (clickLatency es) (rtResponses es)
   \<and> r_anticipationCount (reactionTime es)
       = length (filter (\<lambda>l. l < 100) (matchedLatencies es))
   \<and> r_lapseCount (reactionTime es)
       = length (filter (\<lambda>l. \<not> l < 100 \<and> l > 1500) (matchedLatencies es))
   \<and> validLatencies es = filter (\<lambda>l. 100 \<le> l \<and> l \<le> 1500) (matchedLatencies es)
   \<and> r_meanRT (reactionTime es)
       = (if validLatencies es = [] then 0 else meanOf (validLatencies es))
   \<and> r_rtVariance (reactionTime es)
       = (if validLatencies es = [] then 0 else varianceOf (validLatencies es))
   \<and> r_rtStd (reactionTime es)
       = (if validLatencies es = [] then 0 else sqrt (varianceOf (validLatencies es)))
   \<and> responseLatencies scenarioA = [Some 250]
   \<and> classifyRT 250 = Valid
   \<and> reactionTime scenarioA
       = \<lparr>r_meanRT = 250, r_rtVariance = 0, r_rtStd = 0,
          r_anticipationCount = 0, r_lapseCount = 0\<rparr>
   \<and> responseLatencies scenarioB = [Some (5 / 100)]
   \<and> classifyRT (5 / 100) = Anticipation
   \<and> reactionTime scenarioB
       = \<lparr>r_meanRT = 0, r_rtVariance = 0, r_rtStd = 0,
          r_anticipationCount = 1, r_lapseCount = 0\<rparr>"
proof -
  have 1: "responseLatencies es = map (clickLatency es) (rtResponses es)"
    by (simp add: responseLatencies_def rtMs_clickLatency)
  have a: "(\<lambda>l. classifyRT l = Anticipation) = (\<lambda>l. l < 100)"
    by (auto simp add: classifyRT_def)
  have l: "(\<lambda>l. classifyRT l = Lapse) = (\<lambda>l. \<not> l < 100 \<and> l > 1500)"
    by (auto simp add: classifyRT_def)
  have v: "(\<lambda>l. classifyRT l = Valid) = (\<lambda>l. 100 \<le> l \<and> l \<le> 1500)"
    by (auto simp add: classifyRT_def)
  have 2: "r_anticipationCount (reactionTime es)
       = length (filter (\<lambda>l. l < 100) (matchedLatencies es))"
    using reactionTime_spec(1)[of es] by (simp only: a)
  have 3: "r_lapseCount (reactionTime es)
       = length (filter (\<lambda>l. \<not> l < 100 \<and> l > 1500) (matchedLatencies es))"
    using reactionTime_spec(2)[of es] by (simp only: l)
  have 4: "validLatencies es = filter (\<lambda>l. 100 \<le> l \<and> l \<le> 1500) (matchedLatencies es)"
    unfolding validLatencies_def by (simp only: v)
  have 5: "classifyRT 250 = Valid" "classifyRT (5 / 100) = Anticipation"
    by (simp_all add: classifyRT_def)
  have 6: "responseLatencies scenarioB = [Some (5 / 100)]"
    using scenarioB_result(1) by simp
  show ?thesis
    using 1 2 3 4 5 6 reactionTime_spec(3,4,5)[of es] scenarioA_result scenarioB_result(2)
    by blast
qed

text \<open>
  C7 as stated gives the click of scenario B, 50 us after the stimulus, a reaction time
  of 50 ms; the latency computed for it is not 50.
\<close>

theorem C7_counterexample: "\<not> (responseLatencies scenarioB = [Some 50])"
  by (simp add: scenarioB_result(1))

section \<open>Audio metrics (layer 2+)\<close>

lemma find_earliest:
  assumes "sorted (map f xs)" "find P xs = Some m"
  shows "P m \<and> m \<in> set xs \<and> (\<forall>r \<in> set xs. P r \<longrightarrow> (f m :: real) \<le> f r)"
  using assms
proof (induction xs)
  case Nil
  then show ?case by simp
next
  case (Cons x xs)
  have srt: "sorted (map f xs)" and le: "\<forall>y \<in> set xs. f x \<le> f y"
    using Cons.prems(1) by auto
  show ?case
  proof (cases "P x")
    case True
    then have "m = x" using Cons.prems(2) by simp
    then show ?thesis using True le by auto
  next
    case False
    then have "find P xs = Some m" using Cons.prems(2) by simp
    then show ?thesis using Cons.IH[OF srt] False by auto
  qed
qed

lemma spaceResponses_sorted: "sorted (map timestampUs (spaceResponses es))"
  by (simp add: spaceResponses_def sortByTime_def)

lemma findResponse_none:
  "findResponse (spaceResponses es) cue = None \<longleftrightarrow> \<not> hasResponse es cue"
  by (auto simp add: findResponse_def hasResponse_def find_None_iff list_ex_iff)

lemma findResponse_some:
  assumes "findResponse (spaceResponses es) cue = Some r"
  shows "hasResponse es cue"
    and "inWindow cue r"
    and "r \<in> set (spaceResponses es)"
    and "\<forall>r' \<in> set (spaceResponses es). inWindow cue r' \<longrightarrow> timestampUs r \<le> timestampUs r'"
    and "(timestampUs r - timestampUs cue) / 1000 \<ge> 100 \<longleftrightarrow> noneTooFast es cue"
proof -
  have f: "find (inWindow cue) (spaceResponses es) = Some r"
    using assms by (simp add: findResponse_def)
  note e = find_earliest[OF spaceResponses_sorted f]
  show "inWindow cue r" and "r \<in> set (spaceResponses es)" using e by simp_all
  then show "hasResponse es cue" by (auto simp add: hasResponse_def list_ex_iff)
  show ea: "\<forall>r' \<in> set (spaceResponses es). inWindow cue r' \<longrightarrow> timestampUs r \<le> timestampUs r'"
    using e by simp
  show "(timestampUs r - timestampUs cue) / 1000 \<ge> 100 \<longleftrightarrow> noneTooFast es cue"
  proof
    assume a: "100 \<le> (timestampUs r - timestampUs cue) / 1000"
    have "\<forall>r' \<in> set (spaceResponses es). inWindow cue r'
            \<longrightarrow> 100 \<le> (timestampUs r' - timestampUs cue) / 1000"
    proof (intro ballI impI)
      fix r' assume "r' \<in> set (spaceResponses es)" "inWindow cue r'"
      then have "timestampUs r \<le> timestampUs r'" using ea by blast
      then show "100 \<le> (timestampUs r' - timestampUs cue) / 1000" using a by simp
    qed
    then show "noneTooFast es cue" by (simp add: noneTooFast_def list_all_iff)
  next
    assume "noneTooFast es cue"
    then show "100 \<le> (timestampUs r - timestampUs cue) / 1000"
      using e by (auto simp add: noneTooFast_def list_all_iff)
  qed
qed

lemma audioStep_hits:
  "snd (audioStep (spaceResponses es) (v, h) cue) = (if isHit es cue then h + 1 else h)"
proof (cases "findResponse (spaceResponses es) cue")
  case None
  then show ?thesis using findResponse_none[of es cue]
    by (simp add: audioStep_def isHit_def)
next
  case (Some r)
  show ?thesis using Some findResponse_some(1,5)[OF Some]
    by (auto simp add: audioStep_def isHit_def RT_MIN_MS_def Let_def)
qed

lemma audio_fold_hits:
  "snd (foldl (audioStep (spaceResponses es)) (v, h) cues) = h + length (filter (isHit es) cues)"
proof (induction cues arbitrary: v h)
  case Nil
  then show ?case by simp
next
  case (Cons c cues)
  obtain v' h' where s: "audioStep (spaceResponses es) (v, h) c = (v', h')"
    by (cases "audioStep (spaceResponses es) (v, h) c") auto
  have h': "h' = (if isHit es c then h + 1 else h)"
    using audioStep_hits[of es v h c] s by simp
  show ?case using Cons.IH[of v' h'] s h' by simp
qed

lemma falsePositive_fold:
  "foldl (falsePositiveStep (spaceResponses es)) n cues
     = n + length (filter (hasResponse es) cues)"
proof (induction cues arbitrary: n)
  case Nil
  then show ?case by simp
next
  case (Cons c cues)
  have "falsePositiveStep (spaceResponses es) n c = (if hasResponse es c then n + 1 else n)"
    using findResponse_none[of es c]
    by (cases "findResponse (spaceResponses es) c") (auto simp add: falsePositiveStep_def)
  then show ?case using Cons.IH by simp
qed

lemma audioMetrics_fields:
  "a_audioAccuracy (audioMetrics es)
     = (if signalCues es = [] then 0
        else real (snd (audioLoop es)) / real (length (signalCues es)))"
  "a_audioFalsePositives (audioMetrics es) = length (filter (hasResponse es) (distractorCues es))"
  by (auto simp add: audioMetrics_def Let_def falsePositive_fold split: prod.splits)

lemma nextQualifying_iff:
  assumes "noneTooFast es cue"
  shows "nextQualifying es cue \<noteq> None \<longleftrightarrow> hasResponse es cue"
  using assms
  by (auto simp add: nextQualifying_def qualifies_def hasResponse_def noneTooFast_def
      find_None_iff list_all_iff list_ex_iff)

lemma spec_agrees:
  assumes "list_all (noneTooFast es) (signalCues es)"
  shows "a_audioAccuracy (audioMetrics es) = specAudioAccuracy es"
proof -
  have "filter (isHit es) (signalCues es) = specMatchedCues es"
    unfolding specMatchedCues_def
    using assms nextQualifying_iff
    by (intro filter_cong) (auto simp add: isHit_def list_all_iff)
  then have "snd (audioLoop es) = length (specMatchedCues es)"
    by (simp add: audioLoop_def audio_fold_hits)
  then show ?thesis by (simp add: audioMetrics_fields specAudioAccuracy_def)
qed

lemma early_eval:
  "a_audioAccuracy (audioMetrics earlyThenLate) = 0"
  "specAudioAccuracy earlyThenLate = 1"
  by (simp_all add: audioMetrics_def audioLoop_def audioStep_def findResponse_def inWindow_def
      falsePositiveStep_def signalCues_def distractorCues_def spaceResponses_def sortByTime_def
      earlyThenLate_def toneEvent_def spaceAt_def noData_def RT_MAX_MS_def RT_MIN_MS_def
      specAudioAccuracy_def specMatchedCues_def nextQualifying_def qualifies_def Let_def)

lemma sd_eval:
  "audioMetrics signalAndDistractor
     = \<lparr>a_meanAudioRT = 300, a_audioAccuracy = 1, a_audioFalsePositives = 1\<rparr>"
  by (simp add: audioMetrics_def audioLoop_def audioStep_def findResponse_def inWindow_def
      falsePositiveStep_def signalCues_def distractorCues_def spaceResponses_def sortByTime_def
      signalAndDistractor_def toneEvent_def spaceAt_def noData_def RT_MAX_MS_def RT_MIN_MS_def
      Let_def)

text \<open>
  C3 (as amended). In the audio metrics computation, for every event log, each
  non-distractor audio cue is paired with the earliest SPACE key-response strictly
  inside its response window (after the cue and less than 1500 ms after it), and the cue
  is matched only when that earliest response is not faster than the 100 ms anticipation
  floor, that is, when the window holds a response and none in it is too fast. The
  reported accuracy equals matched cues divided by total signal cues (0 when there is no
  signal cue), and the reported false-positive count equals the number of distractor
  cues that have a SPACE response within the same window. Whenever no signal cue has a
  too-fast response in its window, the accuracy is that of matching each cue to its next
  qualifying response.
\<close>

theorem C3_audio_metrics:
  "(\<forall>cue r. findResponse (spaceResponses es) cue = Some r \<longrightarrow>
       inWindow cue r
       \<and> (\<forall>r' \<in> set (spaceResponses es). inWindow cue r' \<longrightarrow> timestampUs r \<le> timestampUs r'))
   \<and> snd (audioLoop es) = length (filter (isHit es) (signalCues es))
   \<and> a_audioAccuracy (audioMetrics es)
       = (if signalCues es = [] then 0
          else real (length (filter (isHit es) (signalCues es))) / real (length (signalCues es)))
   \<and> a_audioFalsePositives (audioMetrics es)
       = length (filter (hasResponse es) (distractorCues es))
   \<and> (list_all (noneTooFast es) (signalCues es) \<longrightarrow>
        a_audioAccuracy (audioMetrics es) = specAudioAccuracy es)"
proof -
  have h: "snd (audioLoop es) = length (filter (isHit es) (signalCues es))"
    by (simp add: audioLoop_def audio_fold_hits)
  show ?thesis
    using findResponse_some(2,4) h audioMetrics_fields[of es] spec_agrees[of es]
    by (simp add: h)
qed

theorem C3_audio_metrics_witness:
  "list_all (noneTooFast signalAndDistractor) (signalCues signalAndDistractor)
   \<and> a_audioAccuracy (audioMetrics signalAndDistractor) = 1
   \<and> specAudioAccuracy signalAndDistractor = 1
   \<and> a_audioFalsePositives (audioMetrics signalAndDistractor) = 1
   \<and> length (filter (hasResponse signalAndDistractor) (distractorCues signalAndDistractor)) = 1"
proof -
  have n: "list_all (noneTooFast signalAndDistractor) (signalCues signalAndDistractor)"
    by (simp add: noneTooFast_def inWindow_def signalCues_def spaceResponses_def sortByTime_def
        signalAndDistractor_def toneEvent_def spaceAt_def noData_def RT_MAX_MS_def)
  note t = C3_audio_metrics[of signalAndDistractor]
  have a: "a_audioAccuracy (audioMetrics signalAndDistractor) = specAudioAccuracy signalAndDistractor"
    using t n by blast
  have f: "a_audioFalsePositives (audioMetrics signalAndDistractor)
       = length (filter (hasResponse signalAndDistractor) (distractorCues signalAndDistractor))"
    using t by blast
  show ?thesis using n a f by (simp add: sd_eval)
qed

text \<open>
  C3 as stated matches a cue to its next qualifying response. For a tone answered after
  50 ms and again after 300 ms the second response qualifies, so the accuracy would be
  1; the computed accuracy is 0.
\<close>

theorem C3_counterexample:
  "\<not> (a_audioAccuracy (audioMetrics earlyThenLate) = specAudioAccuracy earlyThenLate)"
  by (simp add: early_eval)

end
